theory Spec2Isabelle
  imports Main "HOL-Library.Sublist"
begin

section \<open>Python values and strings\<close>

text \<open>
  The script is dynamically typed: an environment variable is a \<open>str\<close> or \<open>None\<close>, a
  decoded JSON body is any JSON value. \<open>pyval\<close> is the part of Python's value space the
  script can see (JSON numbers are kept as integers). Strings are lists of 8-bit
  characters, so the model speaks about ASCII text.
\<close>

datatype pyval =
    PyNone
  | PyBool bool
  | PyInt int
  | PyStr string
  | PyList "pyval list"
  | PyDict "(string \<times> pyval) list"

text \<open>
  An f-string is kept as the list of its pieces: the literal text and the interpolated
  values, in order. Python's \<open>str()\<close> of a non-string value is not modelled.
\<close>

datatype frag = Lit string | Fmt pyval

type_synonym fstring = "frag list"

text \<open>\<open>os.getenv\<close> gives \<open>None\<close> for an unset variable.\<close>

fun of_env :: "string option \<Rightarrow> pyval" where
  "of_env None = PyNone"
| "of_env (Some s) = PyStr s"

text \<open>\<open>s.lstrip('v')\<close> removes every leading \<open>v\<close>.\<close>

definition lstrip :: "char \<Rightarrow> string \<Rightarrow> string" where
  "lstrip c s = dropWhile (\<lambda>x. x = c) s"

text \<open>\<open>s.startswith(p)\<close>.\<close>

definition startswith :: "string \<Rightarrow> string \<Rightarrow> bool" where
  "startswith s p = prefix p s"

text \<open>\<open>p in s\<close> for strings: \<open>p\<close> occurs in \<open>s\<close> as a contiguous substring.\<close>

fun contains :: "string \<Rightarrow> string \<Rightarrow> bool" where
  "contains [] p = (p = [])"
| "contains (x # xs) p = (prefix p (x # xs) \<or> contains xs p)"

text \<open>
  \<open>s.replace(old, new)\<close>: every non-overlapping occurrence of \<open>old\<close>, scanning from the
  left. For an empty \<open>old\<close> Python puts \<open>new\<close> before every character and at the end.
\<close>

function str_replace :: "string \<Rightarrow> string \<Rightarrow> string \<Rightarrow> string" where
  "str_replace s old new =
     (if old = [] then new @ concat (map (\<lambda>c. c # new) s)
      else if s = [] then []
      else if prefix old s then new @ str_replace (drop (length old) s) old new
      else hd s # str_replace (tl s) old new)"
  by pat_completeness auto
termination
  by (relation "measure (\<lambda>(s, old, new). length s)") auto

text \<open>\<open>s.split(c)\<close> with a one-character separator: never an empty list.\<close>

fun split :: "char \<Rightarrow> string \<Rightarrow> string list" where
  "split c [] = [[]]"
| "split c (x # xs) =
     (if x = c then [] # split c xs
      else (case split c xs of
              [] \<Rightarrow> [[x]]
            | y # ys \<Rightarrow> (x # y) # ys))"

section \<open>The semver package\<close>

text \<open>
  Modelled from the spec: the semantic-version capability is the third-party package
  \<open>semver\<close>, which is not part of the repository. The spec asks for ``compare two
  version strings; fails on malformed input'', with attributes major, minor, patch
  (non-negative integers) and an optional pre-release label, under the standard
  precedence rules. The definitions below follow \<open>semver.VersionInfo\<close>: \<open>parse\<close> is
  the package's regular expression
  \<^verbatim>\<open>^(0|[1-9]\d*)\.(0|[1-9]\d*)\.(0|[1-9]\d*)(?:-(pre))?(?:\+(build))?$\<close>,
  and \<open>compare\<close> is its \<open>compare\<close> with the helper \<open>_nat_cmp\<close>.
\<close>

record VersionInfo =
  major :: nat
  minor :: nat
  patch :: nat
  prerelease :: "string option"
  build :: "string option"

text \<open>\<open>ord(c)\<close>, the code of a character.\<close>

definition ord :: "char \<Rightarrow> nat" where
  "ord c = of_char c"

definition is_digit :: "char \<Rightarrow> bool" where
  "is_digit c = (ord CHR ''0'' \<le> ord c \<and> ord c \<le> ord CHR ''9'')"

definition is_alpha :: "char \<Rightarrow> bool" where
  "is_alpha c =
     ((ord CHR ''a'' \<le> ord c \<and> ord c \<le> ord CHR ''z'')
      \<or> (ord CHR ''A'' \<le> ord c \<and> ord c \<le> ord CHR ''Z''))"

text \<open>The character class \<open>[0-9a-zA-Z-]\<close>.\<close>

definition is_ident_char :: "char \<Rightarrow> bool" where
  "is_ident_char c = (is_digit c \<or> is_alpha c \<or> c = CHR ''-'')"

definition digit_val :: "char \<Rightarrow> nat" where
  "digit_val c = ord c - ord CHR ''0''"

text \<open>\<open>int(text)\<close> on a string of decimal digits.\<close>

definition int_of_digits :: "string \<Rightarrow> nat" where
  "int_of_digits s = foldl (\<lambda>n c. 10 * n + digit_val c) 0 s"

text \<open>The group \<open>0|[1-9]\d*\<close>: decimal digits, no leading zero unless the number is 0.\<close>

definition is_numeric_id :: "string \<Rightarrow> bool" where
  "is_numeric_id s = (s \<noteq> [] \<and> list_all is_digit s \<and> (s = ''0'' \<or> hd s \<noteq> CHR ''0''))"

text \<open>
  One pre-release identifier, \<open>0|[1-9]\d*|\d*[a-zA-Z-][0-9a-zA-Z-]*\<close>: a numeric
  identifier, or identifier characters with at least one that is not a digit.
\<close>

definition is_prerelease_id :: "string \<Rightarrow> bool" where
  "is_prerelease_id s =
     (is_numeric_id s \<or> (list_all is_ident_char s \<and> \<not> list_all is_digit s))"

text \<open>One build identifier, \<open>[0-9a-zA-Z-]+\<close>.\<close>

definition is_build_id :: "string \<Rightarrow> bool" where
  "is_build_id s = (s \<noteq> [] \<and> list_all is_ident_char s)"

text \<open>
  In a Python regular expression \<open>$\<close> also matches just before a newline that ends the
  string, so one final newline is tolerated.
\<close>

definition chomp :: "string \<Rightarrow> string" where
  "chomp s = (if s \<noteq> [] \<and> last s = CHR 0x0A then butlast s else s)"

text \<open>
  The three parts of a candidate string: the text before the first \<open>-\<close> or \<open>+\<close>, the
  pre-release text (after a \<open>-\<close>, up to the first \<open>+\<close>), and the build text (after the
  \<open>+\<close>).
\<close>

definition version_core :: "string \<Rightarrow> string" where
  "version_core s = takeWhile (\<lambda>c. c \<noteq> CHR ''-'' \<and> c \<noteq> CHR ''+'') s"

definition version_rest :: "string \<Rightarrow> string" where
  "version_rest s = dropWhile (\<lambda>c. c \<noteq> CHR ''-'' \<and> c \<noteq> CHR ''+'') s"

fun prerelease_text :: "string \<Rightarrow> string option" where
  "prerelease_text [] = None"
| "prerelease_text (c # r) =
     (if c = CHR ''-'' then Some (takeWhile (\<lambda>x. x \<noteq> CHR ''+'') r) else None)"

fun build_text :: "string \<Rightarrow> string option" where
  "build_text [] = None"
| "build_text (c # r) =
     (if c = CHR ''+'' then Some r
      else (case dropWhile (\<lambda>x. x \<noteq> CHR ''+'') r of
              [] \<Rightarrow> None
            | _ # b \<Rightarrow> Some b))"

definition valid_opt :: "(string \<Rightarrow> bool) \<Rightarrow> string option \<Rightarrow> bool" where
  "valid_opt ok t = (case t of None \<Rightarrow> True | Some x \<Rightarrow> list_all ok (split CHR ''.'' x))"

text \<open>
  \<open>VersionInfo.parse\<close>: \<open>Inl\<close> carries the message of the \<open>ValueError\<close> the package
  raises when the string does not match.
\<close>

definition parse :: "string \<Rightarrow> string + VersionInfo" where
  "parse version =
     (let s = chomp version;
          pre = prerelease_text (version_rest s);
          bld = build_text (version_rest s)
      in case split CHR ''.'' (version_core s) of
           [ma, mi, pa] \<Rightarrow>
             if is_numeric_id ma \<and> is_numeric_id mi \<and> is_numeric_id pa
                \<and> valid_opt is_prerelease_id pre \<and> valid_opt is_build_id bld
             then Inr \<lparr>major = int_of_digits ma, minor = int_of_digits mi,
                       patch = int_of_digits pa, prerelease = pre, build = bld\<rparr>
             else Inl (version @ '' is not valid SemVer string'')
         | _ \<Rightarrow> Inl (version @ '' is not valid SemVer string''))"

text \<open>Python 2's \<open>cmp\<close>, which the package defines for itself: \<open>-1\<close>, \<open>0\<close> or \<open>1\<close>.\<close>

definition cmp_nat :: "nat \<Rightarrow> nat \<Rightarrow> int" where
  "cmp_nat a b = (if a < b then - 1 else if b < a then 1 else 0)"

fun cmp_str :: "string \<Rightarrow> string \<Rightarrow> int" where
  "cmp_str [] [] = 0"
| "cmp_str [] (y # ys) = - 1"
| "cmp_str (x # xs) [] = 1"
| "cmp_str (x # xs) (y # ys) =
     (if ord x < ord y then - 1
      else if ord y < ord x then 1
      else cmp_str xs ys)"

text \<open>\<open>convert\<close>: a pre-release identifier made of digits only is an integer.\<close>

datatype tag = TInt nat | TStr string

definition convert :: "string \<Rightarrow> tag" where
  "convert t = (if t \<noteq> [] \<and> list_all is_digit t then TInt (int_of_digits t) else TStr t)"

definition split_key :: "string \<Rightarrow> tag list" where
  "split_key k = map convert (split CHR ''.'' k)"

fun cmp_prerelease_tag :: "tag \<Rightarrow> tag \<Rightarrow> int" where
  "cmp_prerelease_tag (TInt a) (TInt b) = cmp_nat a b"
| "cmp_prerelease_tag (TInt a) (TStr b) = - 1"
| "cmp_prerelease_tag (TStr a) (TInt b) = 1"
| "cmp_prerelease_tag (TStr a) (TStr b) = cmp_str a b"

text \<open>
  The loop of \<open>_nat_cmp\<close> over \<open>zip(a_parts, b_parts)\<close>; when no pair differs the
  lengths of the two strings decide.
\<close>

fun nat_cmp_loop :: "tag list \<Rightarrow> tag list \<Rightarrow> int option" where
  "nat_cmp_loop (x # xs) (y # ys) =
     (if cmp_prerelease_tag x y \<noteq> 0 then Some (cmp_prerelease_tag x y)
      else nat_cmp_loop xs ys)"
| "nat_cmp_loop _ _ = None"

definition nat_cmp :: "string option \<Rightarrow> string option \<Rightarrow> int" where
  "nat_cmp a b =
     (let a' = (case a of None \<Rightarrow> [] | Some x \<Rightarrow> x);
          b' = (case b of None \<Rightarrow> [] | Some x \<Rightarrow> x)
      in case nat_cmp_loop (split_key a') (split_key b') of
           Some r \<Rightarrow> r
         | None \<Rightarrow> cmp_nat (length a') (length b'))"

text \<open>
  \<open>VersionInfo.compare\<close>: major, minor and patch first; then a version without a
  pre-release label is above one with a label; the build text is ignored.
\<close>

definition compare :: "VersionInfo \<Rightarrow> VersionInfo \<Rightarrow> int" where
  "compare v1 v2 =
     (if cmp_nat (major v1) (major v2) \<noteq> 0 then cmp_nat (major v1) (major v2)
      else if cmp_nat (minor v1) (minor v2) \<noteq> 0 then cmp_nat (minor v1) (minor v2)
      else if cmp_nat (patch v1) (patch v2) \<noteq> 0 then cmp_nat (patch v1) (patch v2)
      else if nat_cmp (prerelease v1) (prerelease v2) = 0 then 0
      else if prerelease v1 = None \<or> prerelease v1 = Some [] then 1
      else if prerelease v2 = None \<or> prerelease v2 = Some [] then - 1
      else nat_cmp (prerelease v1) (prerelease v2))"

section \<open>Inputs, the outside world and the effects of a run\<close>

text \<open>
  The module-level constants of \<open>action.py\<close>, read from the environment when the script
  starts, together with the three variables \<open>handle_pull_request\<close> reads later.
\<close>

record config =
  GITHUB_TOKEN :: "string option"
  LINT_MODE :: "string option"
  SOURCE_BRANCH :: "string option"
  TARGET_BRANCH :: "string option"
  GITHUB_EVENT_NAME :: "string option"
  GITHUB_REPOSITORY :: "string option"
  GITHUB_REF :: "string option"
  pr_version :: "string option"
  main_version :: "string option"
  PR_NUMBER :: "string option"

text \<open>What Python can raise in this script besides \<open>SystemExit\<close>.\<close>

datatype py_exception =
    ValueError string
  | AttributeError
  | TypeError
  | KeyError
  | JSONDecodeError
  | HTTPError
  | RequestException
  | OSError

datatype http_method = GET | POST | PUT

record http_request =
  http_method :: http_method
  url :: fstring
  headers :: "(string \<times> fstring) list"
  json :: "pyval option"

text \<open>
  A \<open>requests.Response\<close>: the status, the body as text, and the body as decoded by
  \<open>response.json()\<close> (\<open>None\<close> when the body is not JSON and decoding raises).
\<close>

record response =
  status_code :: int
  body_text :: string
  body_json :: "pyval option"

text \<open>A call of \<open>requests\<close> gives a response or raises (no connection, time-out).\<close>

datatype http_result = Response response | Failed py_exception

text \<open>
  \<open>subprocess.run(..., check=True)\<close>: the process ends with status 0, or with another
  status (\<open>CalledProcessError\<close>, carrying stdout and stderr), or it cannot be started.
\<close>

datatype lint_result =
    Completed string
  | CalledProcessError string string
  | NotStarted py_exception

text \<open>The outside world of one run: the working tree, the linter and the forge.\<close>

record world =
  path_exists :: "string \<Rightarrow> bool"
  run_lint :: "string list \<Rightarrow> lint_result"
  forge :: "http_request \<Rightarrow> http_result"

text \<open>Everything a run does that can be observed, in order.\<close>

datatype event =
    Print fstring
  | PathExists string
  | SubprocessRun "pyval list"
  | Http http_request

text \<open>
  How a piece of the script ends: it returns a value, \<open>sys.exit(n)\<close> was called, or an
  exception escaped. A computation is the list of its events and its end.
\<close>

datatype 'a result = Return 'a | Exit int | Raise py_exception

type_synonym 'a run = "event list \<times> 'a result"

definition and_then :: "'a run \<Rightarrow> ('a \<Rightarrow> 'b run) \<Rightarrow> 'b run" where
  "and_then m f =
     (case m of
        (tr, Return x) \<Rightarrow> (case f x of (tr', r) \<Rightarrow> (tr @ tr', r))
      | (tr, Exit n) \<Rightarrow> (tr, Exit n)
      | (tr, Raise e) \<Rightarrow> (tr, Raise e))"

definition return :: "'a \<Rightarrow> 'a run" where
  "return x = ([], Return x)"

definition print :: "fstring \<Rightarrow> unit run" where
  "print s = ([Print s], Return ())"

definition sys_exit :: "int \<Rightarrow> 'a run" where
  "sys_exit n = ([], Exit n)"

definition raise :: "py_exception \<Rightarrow> 'a run" where
  "raise e = ([], Raise e)"

text \<open>
  The exit status of the process: 0 when \<open>main\<close> returns, the argument of \<open>sys.exit\<close>,
  and 1 when an exception escapes (the interpreter prints the traceback).
\<close>

fun exit_code :: "'a result \<Rightarrow> int" where
  "exit_code (Return x) = 0"
| "exit_code (Exit n) = n"
| "exit_code (Raise e) = 1"

section \<open>API configuration\<close>

definition GITHUB_API_URL :: "config \<Rightarrow> fstring" where
  "GITHUB_API_URL cfg =
     [Lit ''https://api.github.com/repos/'', Fmt (of_env (GITHUB_REPOSITORY cfg))]"

definition HEADERS :: "config \<Rightarrow> (string \<times> fstring) list" where
  "HEADERS cfg =
     [(''Authorization'', [Lit ''token '', Fmt (of_env (GITHUB_TOKEN cfg))]),
      (''Accept'', [Lit ''application/vnd.github.v3+json''])]"

text \<open>\<open>requests.get\<close>, \<open>requests.post\<close> and \<open>requests.put\<close>.\<close>

definition requests :: "world \<Rightarrow> http_request \<Rightarrow> response run" where
  "requests w rq =
     (case forge w rq of
        Response r \<Rightarrow> ([Http rq], Return r)
      | Failed e \<Rightarrow> ([Http rq], Raise e))"

section \<open>Validation functions\<close>

definition validate_library_metadata :: "world \<Rightarrow> unit run" where
  "validate_library_metadata w =
     and_then ([PathExists ''library.properties''],
               Return (path_exists w ''library.properties''))
       (\<lambda>found.
          if \<not> found then
            and_then (print [Lit ''Error: library.properties file is missing.''])
              (\<lambda>_. sys_exit 1)
          else print [Lit ''library.properties found.''])"

text \<open>
  \<open>subprocess.run\<close> raises \<open>TypeError\<close> before starting anything when an argument is
  \<open>None\<close>.
\<close>

definition subprocess_run :: "world \<Rightarrow> pyval list \<Rightarrow> lint_result run" where
  "subprocess_run w args =
     (if list_all (\<lambda>a. case a of PyStr s \<Rightarrow> True | _ \<Rightarrow> False) args
      then ([SubprocessRun args],
            Return (run_lint w (map (\<lambda>a. case a of PyStr s \<Rightarrow> s | _ \<Rightarrow> []) args)))
      else raise TypeError)"

definition validate_code_style :: "config \<Rightarrow> world \<Rightarrow> unit run" where
  "validate_code_style cfg w =
     and_then
       (subprocess_run w
          [PyStr ''arduino-lint'', PyStr ''--library-manager'', of_env (LINT_MODE cfg)])
       (\<lambda>res. case res of
          Completed out \<Rightarrow>
            and_then (print [Lit ''Code style validation passed.''])
              (\<lambda>_. if out \<noteq> [] then print [Fmt (PyStr out)] else return ())
        | CalledProcessError out err \<Rightarrow>
            and_then (print [Lit ''Error: Code style validation failed.''])
              (\<lambda>_. and_then
                 (if out \<noteq> [] then print [Lit ''stdout:\<newline>'', Fmt (PyStr out)]
                  else return ())
                 (\<lambda>_. and_then
                    (if err \<noteq> [] then print [Lit ''stderr:\<newline>'', Fmt (PyStr err)]
                     else return ())
                    (\<lambda>_. sys_exit 1)))
        | NotStarted e \<Rightarrow> raise e)"

text \<open>
  \<open>x.lstrip('v')\<close> on any value: only a string has the method, anything else raises
  \<open>AttributeError\<close>.
\<close>

fun py_lstrip :: "pyval \<Rightarrow> string run" where
  "py_lstrip (PyStr s) = return (lstrip CHR ''v'' s)"
| "py_lstrip _ = raise AttributeError"

text \<open>
  The two calls of \<open>parse\<close> stand in the \<open>try\<close> block, which catches \<open>ValueError\<close>
  only: the first bad string prints the diagnostic and exits with status 1.
\<close>

definition try_parse :: "string \<Rightarrow> VersionInfo run" where
  "try_parse s =
     (case parse s of
        Inl msg \<Rightarrow>
          and_then (print [Lit ''Error: Invalid semantic version. '', Fmt (PyStr msg)])
            (\<lambda>_. sys_exit 1)
      | Inr v \<Rightarrow> return v)"

definition validate_version :: "pyval \<Rightarrow> pyval \<Rightarrow> unit run" where
  "validate_version new_version old_version =
     and_then (py_lstrip new_version) (\<lambda>new_s.
     and_then (try_parse new_s) (\<lambda>new_v.
     and_then (py_lstrip old_version) (\<lambda>old_s.
     and_then (try_parse old_s) (\<lambda>old_v.
     and_then
       (if prerelease new_v \<noteq> None
        then print [Lit ''Warning: New version '', Lit [CHR 0x27], Fmt new_version,
                    Lit [CHR 0x27], Lit '' is a pre-release.'']
        else return ())
       (\<lambda>_.
          if compare new_v old_v \<le> 0 then
            and_then
              (print [Lit ''Error: New version '', Lit [CHR 0x27], Fmt new_version,
                      Lit [CHR 0x27], Lit '' is not greater than old version '',
                      Lit [CHR 0x27], Fmt old_version, Lit [CHR 0x27], Lit ''.''])
              (\<lambda>_. sys_exit 1)
          else print [Lit ''Version validation passed: '', Fmt old_version, Lit '' -> '',
                      Fmt new_version])))))"

section \<open>GitHub API functions\<close>

text \<open>
  \<open>response.raise_for_status()\<close> raises \<open>HTTPError\<close> for a status from 400 to 599.
\<close>

definition raise_for_status :: "response \<Rightarrow> unit run" where
  "raise_for_status r =
     (if 400 \<le> status_code r \<and> status_code r < 600 then raise HTTPError else return ())"

text \<open>\<open>response.json()\<close>.\<close>

definition response_json :: "response \<Rightarrow> pyval run" where
  "response_json r =
     (case body_json r of None \<Rightarrow> raise JSONDecodeError | Some j \<Rightarrow> return j)"

text \<open>
  \<open>x[key]\<close> with a string key: a dictionary gives the value or \<open>KeyError\<close>; no other
  JSON value can be indexed by a string.
\<close>

fun subscript :: "pyval \<Rightarrow> string \<Rightarrow> pyval run" where
  "subscript (PyDict kvs) key =
     (case map_of kvs key of None \<Rightarrow> raise KeyError | Some v \<Rightarrow> return v)"
| "subscript _ key = raise TypeError"

text \<open>The request each API function sends: method, \<open>url\<close>, \<open>HEADERS\<close> and \<open>data\<close>.\<close>

definition latest_request :: "config \<Rightarrow> http_request" where
  "latest_request cfg =
     \<lparr>http_method = GET, url = GITHUB_API_URL cfg @ [Lit ''/releases/latest''],
      headers = HEADERS cfg, json = None\<rparr>"

definition pr_request :: "config \<Rightarrow> string \<Rightarrow> http_request" where
  "pr_request cfg new_version =
     \<lparr>http_method = POST, url = GITHUB_API_URL cfg @ [Lit ''/pulls''],
      headers = HEADERS cfg,
      json = Some (PyDict
        [(''title'', PyStr (''Release: '' @ new_version)),
         (''head'', of_env (SOURCE_BRANCH cfg)),
         (''base'', of_env (TARGET_BRANCH cfg)),
         (''body'', PyStr (''Automated release for version '' @ new_version @ ''.''))])\<rparr>"

definition merge_request :: "config \<Rightarrow> pyval \<Rightarrow> http_request" where
  "merge_request cfg pr_number =
     \<lparr>http_method = PUT,
      url = GITHUB_API_URL cfg @ [Lit ''/pulls/'', Fmt pr_number, Lit ''/merge''],
      headers = HEADERS cfg,
      json = Some (PyDict [(''merge_method'', PyStr ''squash'')])\<rparr>"

text \<open>The tag of a release is \<open>f"v{version.lstrip('v')}"\<close>.\<close>

definition release_tag :: "string \<Rightarrow> string" where
  "release_tag version = ''v'' @ lstrip CHR ''v'' version"

definition release_request :: "config \<Rightarrow> string \<Rightarrow> VersionInfo \<Rightarrow> http_request" where
  "release_request cfg version v =
     \<lparr>http_method = POST, url = GITHUB_API_URL cfg @ [Lit ''/releases''],
      headers = HEADERS cfg,
      json = Some (PyDict
        [(''tag_name'', PyStr (release_tag version)),
         (''name'', PyStr (''Release '' @ release_tag version)),
         (''body'', PyStr (''Automated release for version '' @ release_tag version @ ''.'')),
         (''draft'', PyBool False),
         (''prerelease'', PyBool (prerelease v \<noteq> None))])\<rparr>"

definition get_latest_release_version :: "config \<Rightarrow> world \<Rightarrow> pyval run" where
  "get_latest_release_version cfg w =
     and_then (requests w (latest_request cfg))
       (\<lambda>response.
          if status_code response = 404 then
            and_then (print [Lit ''No releases found. Assuming initial version 0.0.0.''])
              (\<lambda>_. return (PyStr ''0.0.0''))
          else
            and_then (raise_for_status response) (\<lambda>_.
            and_then (response_json response) (\<lambda>j. subscript j ''tag_name'')))"

definition create_pr :: "config \<Rightarrow> world \<Rightarrow> string \<Rightarrow> pyval run" where
  "create_pr cfg w new_version =
     and_then (requests w (pr_request cfg new_version))
       (\<lambda>response.
          if status_code response = 201 then
            and_then (response_json response) (\<lambda>pr.
            and_then (subscript pr ''number'') (\<lambda>n.
            and_then (print [Lit ''Successfully created PR #'', Fmt n, Lit ''.''])
              (\<lambda>_. return n)))
          else
            and_then
              (print [Lit ''Error creating PR: '', Fmt (PyInt (status_code response)),
                      Lit '' '', Fmt (PyStr (body_text response))])
              (\<lambda>_.
                 if contains (body_text response) ''A pull request already exists'' then
                   and_then
                     (print [Lit ''A PR already exists for this branch. Attempting to find and merge it.''])
                     (\<lambda>_. sys_exit 0)
                 else sys_exit 1))"

definition merge_pr :: "config \<Rightarrow> world \<Rightarrow> pyval \<Rightarrow> unit run" where
  "merge_pr cfg w pr_number =
     and_then (requests w (merge_request cfg pr_number))
       (\<lambda>response.
          if status_code response = 200 then
            print [Lit ''Successfully merged PR #'', Fmt pr_number, Lit ''.'']
          else
            and_then
              (print [Lit ''Error merging PR #'', Fmt pr_number, Lit '': '',
                      Fmt (PyInt (status_code response)), Lit '' '',
                      Fmt (PyStr (body_text response))])
              (\<lambda>_. sys_exit 1))"

text \<open>
  The dictionary \<open>data\<close> is built before the request is sent, and building it parses
  the version outside any \<open>try\<close>: a \<open>ValueError\<close> there escapes.
\<close>

definition create_release :: "config \<Rightarrow> world \<Rightarrow> string \<Rightarrow> unit run" where
  "create_release cfg w version =
     (case parse (lstrip CHR ''v'' version) of
        Inl msg \<Rightarrow> raise (ValueError msg)
      | Inr v \<Rightarrow>
          and_then (requests w (release_request cfg version v))
            (\<lambda>response.
               if status_code response = 201 then
                 print [Lit ''Successfully created release '',
                        Fmt (PyStr (release_tag version)), Lit ''.'']
               else
                 and_then
                   (print [Lit ''Error creating release: '',
                           Fmt (PyInt (status_code response)), Lit '' '',
                           Fmt (PyStr (body_text response))])
                   (\<lambda>_. sys_exit 1)))"

section \<open>Workflow handlers\<close>

definition handle_pull_request :: "config \<Rightarrow> world \<Rightarrow> unit run" where
  "handle_pull_request cfg w =
     and_then (print [Lit ''-- Handling Pull Request --'']) (\<lambda>_.
       case (pr_version cfg, main_version cfg, PR_NUMBER cfg) of
         (Some pv, Some mv, Some pn) \<Rightarrow>
           if pv = [] \<or> mv = [] \<or> pn = [] then
             and_then
               (print [Lit ''Error: Missing pr_version, main_version, or PR_NUMBER env variables.''])
               (\<lambda>_. sys_exit 1)
           else
             and_then (validate_version (PyStr pv) (PyStr mv)) (\<lambda>_.
             and_then (validate_library_metadata w) (\<lambda>_.
             and_then (validate_code_style cfg w) (\<lambda>_.
             and_then (merge_pr cfg w (PyStr pn)) (\<lambda>_.
             and_then (create_release cfg w pv) (\<lambda>_.
               print [Lit ''-- Pull Request Handled Successfully --''])))))
       | _ \<Rightarrow>
           and_then
             (print [Lit ''Error: Missing pr_version, main_version, or PR_NUMBER env variables.''])
             (\<lambda>_. sys_exit 1))"

definition handle_tag_push :: "config \<Rightarrow> world \<Rightarrow> unit run" where
  "handle_tag_push cfg w =
     and_then (print [Lit ''-- Handling Tag Push --'']) (\<lambda>_.
       case GITHUB_REF cfg of
         None \<Rightarrow> print [Lit ''This push is not a tag push. Skipping.'']
       | Some ref \<Rightarrow>
           if ref = [] \<or> \<not> startswith ref ''refs/tags/'' then
             print [Lit ''This push is not a tag push. Skipping.'']
           else
             (let new_tag = str_replace ref ''refs/tags/'' [] in
              and_then (print [Lit ''Detected new tag: '', Fmt (PyStr new_tag)]) (\<lambda>_.
              and_then (get_latest_release_version cfg w) (\<lambda>latest_version.
              and_then
                (print [Lit ''Latest release version on '', Lit [CHR 0x27],
                        Fmt (of_env (TARGET_BRANCH cfg)), Lit [CHR 0x27], Lit '' is '',
                        Lit [CHR 0x27], Fmt latest_version, Lit [CHR 0x27], Lit ''.''])
                (\<lambda>_.
              and_then (validate_version (PyStr new_tag) latest_version) (\<lambda>_.
              and_then (validate_library_metadata w) (\<lambda>_.
              and_then (validate_code_style cfg w) (\<lambda>_.
              and_then
                (print [Lit ''Creating PR from '', Lit [CHR 0x27],
                        Fmt (of_env (SOURCE_BRANCH cfg)), Lit [CHR 0x27], Lit '' to '',
                        Lit [CHR 0x27], Fmt (of_env (TARGET_BRANCH cfg)), Lit [CHR 0x27],
                        Lit ''...''])
                (\<lambda>_.
              and_then (create_pr cfg w new_tag) (\<lambda>pr_number.
              and_then (merge_pr cfg w pr_number) (\<lambda>_.
              and_then (create_release cfg w new_tag) (\<lambda>_.
                print [Lit ''-- Tag Push Handled Successfully --''])))))))))))) "

section \<open>Main function\<close>

definition main :: "config \<Rightarrow> world \<Rightarrow> unit run" where
  "main cfg w =
     (if GITHUB_EVENT_NAME cfg = Some ''pull_request'' then handle_pull_request cfg w
      else if GITHUB_EVENT_NAME cfg = Some ''push'' then handle_tag_push cfg w
      else print [Lit ''Warning: Unsupported event type '', Lit [CHR 0x27],
                  Fmt (of_env (GITHUB_EVENT_NAME cfg)), Lit [CHR 0x27], Lit ''. Skipping.''])"

section \<open>Observations on a run\<close>

text \<open>
  The three release-gating checks, as they show in the events of a run: the version
  check by the line it prints with its verdict, the metadata check by the look-up of
  the file, the style check by the start of the linter.
\<close>

datatype check = VersionCheck | MetadataCheck | StyleCheck

definition version_passed :: "event \<Rightarrow> bool" where
  "version_passed e =
     (case e of Print (Lit t # _) \<Rightarrow> t = ''Version validation passed: '' | _ \<Rightarrow> False)"

definition version_invalid :: "event \<Rightarrow> bool" where
  "version_invalid e =
     (case e of Print (Lit t # _) \<Rightarrow> t = ''Error: Invalid semantic version. '' | _ \<Rightarrow> False)"

definition version_not_advanced :: "event \<Rightarrow> bool" where
  "version_not_advanced e =
     (case e of Print (Lit t # _) \<Rightarrow> t = ''Error: New version '' | _ \<Rightarrow> False)"

definition prerelease_warning :: "event \<Rightarrow> bool" where
  "prerelease_warning e =
     (case e of Print (Lit t # _) \<Rightarrow> t = ''Warning: New version '' | _ \<Rightarrow> False)"

fun check_of :: "event \<Rightarrow> check list" where
  "check_of (Print s) =
     (if version_passed (Print s) \<or> version_invalid (Print s) \<or> version_not_advanced (Print s)
      then [VersionCheck] else [])"
| "check_of (PathExists p) = [MetadataCheck]"
| "check_of (SubprocessRun args) = [StyleCheck]"
| "check_of (Http rq) = []"

definition checks_run :: "event list \<Rightarrow> check list" where
  "checks_run tr = concat (map check_of tr)"

text \<open>
  The four operations on the forge, as they show in the events: the script sends one
  kind of request for each.
\<close>

datatype forge_op = LatestRelease | OpenPullRequest | MergePullRequest | PublishRelease

fun request_of :: "event \<Rightarrow> http_request list" where
  "request_of (Http rq) = [rq]"
| "request_of _ = []"

definition http_requests :: "event list \<Rightarrow> http_request list" where
  "http_requests tr = concat (map request_of tr)"

definition op_of :: "http_request \<Rightarrow> forge_op list" where
  "op_of rq =
     (case http_method rq of
        GET \<Rightarrow> [LatestRelease]
      | PUT \<Rightarrow> [MergePullRequest]
      | POST \<Rightarrow>
          if url rq \<noteq> [] \<and> last (url rq) = Lit ''/pulls'' then [OpenPullRequest]
          else if url rq \<noteq> [] \<and> last (url rq) = Lit ''/releases'' then [PublishRelease]
          else [])"

definition forge_calls :: "event list \<Rightarrow> forge_op list" where
  "forge_calls tr = concat (map op_of (http_requests tr))"

section \<open>Example runs\<close>

text \<open>
  The scenarios of the specification as concrete inputs: a configuration, and a world
  made of a working tree, a linter and a forge.
\<close>

definition base_cfg :: config where
  "base_cfg =
     \<lparr>GITHUB_TOKEN = Some ''t0ken'', LINT_MODE = Some ''update'',
      SOURCE_BRANCH = Some ''develop'', TARGET_BRANCH = Some ''main'',
      GITHUB_EVENT_NAME = None, GITHUB_REPOSITORY = Some ''owner/lib'',
      GITHUB_REF = None, pr_version = None, main_version = None, PR_NUMBER = None\<rparr>"

definition pull_request_cfg :: "string \<Rightarrow> string \<Rightarrow> config" where
  "pull_request_cfg candidate baseline =
     base_cfg\<lparr>GITHUB_EVENT_NAME := Some ''pull_request'', pr_version := Some candidate,
              main_version := Some baseline, PR_NUMBER := Some ''7''\<rparr>"

definition push_cfg :: "string \<Rightarrow> config" where
  "push_cfg ref = base_cfg\<lparr>GITHUB_EVENT_NAME := Some ''push'', GITHUB_REF := Some ref\<rparr>"

definition plain_response :: "int \<Rightarrow> string \<Rightarrow> response" where
  "plain_response n body = \<lparr>status_code = n, body_text = body, body_json = None\<rparr>"

text \<open>
  A forge that answers each operation with a given result; a request the script never
  sends fails.
\<close>

definition forge_of ::
  "http_result \<Rightarrow> http_result \<Rightarrow> http_result \<Rightarrow> http_result \<Rightarrow> http_request \<Rightarrow> http_result"
where
  "forge_of latest opened merged published rq =
     (if op_of rq = [LatestRelease] then latest
      else if op_of rq = [OpenPullRequest] then opened
      else if op_of rq = [MergePullRequest] then merged
      else if op_of rq = [PublishRelease] then published
      else Failed RequestException)"

definition no_release_yet :: http_result where
  "no_release_yet = Response (plain_response 404 ''Not Found'')"

definition pr_created :: http_result where
  "pr_created =
     Response \<lparr>status_code = 201, body_text = ''created'',
               body_json = Some (PyDict [(''number'', PyInt 12)])\<rparr>"

definition pr_duplicate :: http_result where
  "pr_duplicate =
     Response (plain_response 422 ''Validation Failed: A pull request already exists for owner:develop.'')"

definition merged_ok :: http_result where
  "merged_ok = Response (plain_response 200 ''merged'')"

definition published_ok :: http_result where
  "published_ok = Response (plain_response 201 ''published'')"

definition forge_accepts :: "http_request \<Rightarrow> http_result" where
  "forge_accepts = forge_of no_release_yet pr_created merged_ok published_ok"

definition lint_passes :: "string list \<Rightarrow> lint_result" where
  "lint_passes args = Completed ''Linting library: no errors''"

definition world_of :: "bool \<Rightarrow> (http_request \<Rightarrow> http_result) \<Rightarrow> world" where
  "world_of has_metadata f =
     \<lparr>path_exists = (\<lambda>p. has_metadata \<and> p = ''library.properties''),
      run_lint = lint_passes, forge = f\<rparr>"

definition forge_down :: "http_request \<Rightarrow> http_result" where
  "forge_down rq = Failed RequestException"

definition forge_rejects :: "http_request \<Rightarrow> http_result" where
  "forge_rejects =
     forge_of (Response (plain_response 500 ''Server Error''))
              (Response (plain_response 403 ''Forbidden''))
              (Response (plain_response 409 ''Merge conflict''))
              (Response (plain_response 422 ''Validation Failed''))"

text \<open>
  Whether the forge answered a request of the run for the operation \<open>op\<close> with the
  status \<open>code\<close>.
\<close>

definition accepted :: "world \<Rightarrow> forge_op \<Rightarrow> int \<Rightarrow> event list \<Rightarrow> bool" where
  "accepted w op code tr =
     list_ex (\<lambda>rq. op_of rq = [op]
                \<and> (case forge w rq of Response r \<Rightarrow> status_code r = code | Failed e \<Rightarrow> False))
             (http_requests tr)"

definition release_found :: http_result where
  "release_found =
     Response \<lparr>status_code = 200, body_text = ''latest'',
               body_json = Some (PyDict [(''tag_name'', PyStr ''v1.2.0'')])\<rparr>"


section \<open>Basic facts\<close>

lemma and_then_Return [simp]: "and_then (tr, Return x) f = (tr @ fst (f x), snd (f x))"
  by (simp add: and_then_def split: prod.splits)

lemma and_then_Exit [simp]: "and_then (tr, Exit n) f = (tr, Exit n)"
  by (simp add: and_then_def)

lemma and_then_Raise [simp]: "and_then (tr, Raise e) f = (tr, Raise e)"
  by (simp add: and_then_def)

lemma and_then_eq:
  "and_then m k =
     (case snd m of
        Return x \<Rightarrow> (fst m @ fst (k x), snd (k x))
      | Exit n \<Rightarrow> (fst m, Exit n)
      | Raise e \<Rightarrow> (fst m, Raise e))"
  by (cases m; cases "snd m") auto

lemmas prim_defs = print_def return_def sys_exit_def raise_def

lemmas verdict_defs = version_passed_def version_invalid_def version_not_advanced_def

lemma checks_run_append [simp]: "checks_run (xs @ ys) = checks_run xs @ checks_run ys"
  by (simp add: checks_run_def)

lemma checks_run_Nil [simp]: "checks_run [] = []"
  by (simp add: checks_run_def)

lemma checks_run_Cons [simp]: "checks_run (e # es) = check_of e @ checks_run es"
  by (simp add: checks_run_def)

lemma http_requests_append [simp]:
  "http_requests (xs @ ys) = http_requests xs @ http_requests ys"
  by (simp add: http_requests_def)

lemma http_requests_Nil [simp]: "http_requests [] = []"
  by (simp add: http_requests_def)

lemma http_requests_Cons [simp]: "http_requests (e # es) = request_of e @ http_requests es"
  by (simp add: http_requests_def)

lemma forge_calls_append [simp]: "forge_calls (xs @ ys) = forge_calls xs @ forge_calls ys"
  by (simp add: forge_calls_def)

lemma forge_calls_Nil [simp]: "forge_calls [] = []"
  by (simp add: forge_calls_def)

lemma forge_calls_Cons [simp]:
  "forge_calls (e # es) = concat (map op_of (request_of e)) @ forge_calls es"
  by (simp add: forge_calls_def)

lemma validate_version_cases:
  "validate_version (PyStr a) (PyStr b) =
    (case parse (lstrip CHR ''v'' a) of
       Inl m \<Rightarrow> ([Print [Lit ''Error: Invalid semantic version. '', Fmt (PyStr m)]], Exit 1)
     | Inr va \<Rightarrow> (case parse (lstrip CHR ''v'' b) of
         Inl m \<Rightarrow> ([Print [Lit ''Error: Invalid semantic version. '', Fmt (PyStr m)]], Exit 1)
       | Inr vb \<Rightarrow>
          ((if prerelease va \<noteq> None
            then [Print [Lit ''Warning: New version '', Lit [CHR 0x27], Fmt (PyStr a),
                         Lit [CHR 0x27], Lit '' is a pre-release.'']]
            else []) @
           (if compare va vb \<le> 0
            then [Print [Lit ''Error: New version '', Lit [CHR 0x27], Fmt (PyStr a),
                         Lit [CHR 0x27], Lit '' is not greater than old version '',
                         Lit [CHR 0x27], Fmt (PyStr b), Lit [CHR 0x27], Lit ''.'']]
            else [Print [Lit ''Version validation passed: '', Fmt (PyStr b), Lit '' -> '',
                         Fmt (PyStr a)]]),
           if compare va vb \<le> 0 then Exit 1 else Return ())))"
  by (auto simp add: validate_version_def try_parse_def prim_defs split: sum.splits)

lemmas semver_defs = parse_def chomp_def version_core_def version_rest_def valid_opt_def
  is_numeric_id_def is_prerelease_id_def is_build_id_def is_ident_char_def is_digit_def
  is_alpha_def ord_def int_of_digits_def digit_val_def lstrip_def

lemma parse_examples:
  "parse ''2.0.0'' = Inr \<lparr>major = 2, minor = 0, patch = 0, prerelease = None, build = None\<rparr>"
  "parse ''1.9.0'' = Inr \<lparr>major = 1, minor = 9, patch = 0, prerelease = None, build = None\<rparr>"
  "parse ''1.2.0'' = Inr \<lparr>major = 1, minor = 2, patch = 0, prerelease = None, build = None\<rparr>"
  "parse ''1.1.0'' = Inr \<lparr>major = 1, minor = 1, patch = 0, prerelease = None, build = None\<rparr>"
  "parse ''0.0.0'' = Inr \<lparr>major = 0, minor = 0, patch = 0, prerelease = None, build = None\<rparr>"
  "parse ''0.1.0'' = Inr \<lparr>major = 0, minor = 1, patch = 0, prerelease = None, build = None\<rparr>"
  "parse ''1.2.3'' = Inr \<lparr>major = 1, minor = 2, patch = 3, prerelease = None, build = None\<rparr>"
  "parse ''1.3.0-rc.1'' =
     Inr \<lparr>major = 1, minor = 3, patch = 0, prerelease = Some ''rc.1'', build = None\<rparr>"
  "parse ''not-a-version'' = Inl ''not-a-version is not valid SemVer string''"
  by (simp_all add: semver_defs)



lemma takeWhile_dropWhile_same: "takeWhile P (dropWhile P xs) = []"
  by (induction xs) simp_all

lemma requests_eq:
  "requests w rq =
     ([Http rq], case forge w rq of Response r \<Rightarrow> Return r | Failed e \<Rightarrow> Raise e)"
  by (simp add: requests_def split: http_result.splits)

lemma create_release_requests:
  "http_requests (fst (create_release cfg w version)) =
     (case parse (lstrip CHR ''v'' version) of
        Inl m \<Rightarrow> []
      | Inr v \<Rightarrow> [release_request cfg version v])"
  by (simp add: create_release_def requests_eq and_then_eq prim_defs
           split: sum.splits http_result.splits)

declare str_replace.simps [simp del]

lemma subscript_fst [simp]: "fst (subscript j k) = []"
  by (cases j) (simp_all add: prim_defs split: option.splits)

lemma subscript_PyDict:
  "map_of d k = Some v \<Longrightarrow> subscript (PyDict d) k = ([], Return v)"
  by (simp add: prim_defs)

lemma get_latest_release_version_eq:
  "get_latest_release_version cfg w =
     (case forge w (latest_request cfg) of
        Failed e \<Rightarrow> ([Http (latest_request cfg)], Raise e)
      | Response r \<Rightarrow>
          if status_code r = 404 then
            ([Http (latest_request cfg),
              Print [Lit ''No releases found. Assuming initial version 0.0.0.'']],
             Return (PyStr ''0.0.0''))
          else if 400 \<le> status_code r \<and> status_code r < 600 then
            ([Http (latest_request cfg)], Raise HTTPError)
          else (case body_json r of
                  None \<Rightarrow> ([Http (latest_request cfg)], Raise JSONDecodeError)
                | Some j \<Rightarrow> ([Http (latest_request cfg)], snd (subscript j ''tag_name''))))"
  by (simp add: get_latest_release_version_def requests_eq and_then_eq raise_for_status_def
                response_json_def prim_defs split: http_result.splits option.splits)

lemma create_pr_eq:
  "create_pr cfg w new_version =
     (case forge w (pr_request cfg new_version) of
        Failed e \<Rightarrow> ([Http (pr_request cfg new_version)], Raise e)
      | Response r \<Rightarrow>
          if status_code r = 201 then
            (case body_json r of
               None \<Rightarrow> ([Http (pr_request cfg new_version)], Raise JSONDecodeError)
             | Some j \<Rightarrow>
                 (case snd (subscript j ''number'') of
                    Return n \<Rightarrow>
                      ([Http (pr_request cfg new_version),
                        Print [Lit ''Successfully created PR #'', Fmt n, Lit ''.'']], Return n)
                  | Exit c \<Rightarrow> ([Http (pr_request cfg new_version)], Exit c)
                  | Raise e \<Rightarrow> ([Http (pr_request cfg new_version)], Raise e)))
          else if contains (body_text r) ''A pull request already exists'' then
            ([Http (pr_request cfg new_version),
              Print [Lit ''Error creating PR: '', Fmt (PyInt (status_code r)), Lit '' '',
                     Fmt (PyStr (body_text r))],
              Print [Lit ''A PR already exists for this branch. Attempting to find and merge it.'']],
             Exit 0)
          else
            ([Http (pr_request cfg new_version),
              Print [Lit ''Error creating PR: '', Fmt (PyInt (status_code r)), Lit '' '',
                     Fmt (PyStr (body_text r))]],
             Exit 1))"
  by (simp add: create_pr_def requests_eq and_then_eq response_json_def prim_defs
           split: http_result.splits option.splits result.splits)

lemma merge_pr_eq:
  "merge_pr cfg w pr_number =
     (case forge w (merge_request cfg pr_number) of
        Failed e \<Rightarrow> ([Http (merge_request cfg pr_number)], Raise e)
      | Response r \<Rightarrow>
          if status_code r = 200 then
            ([Http (merge_request cfg pr_number),
              Print [Lit ''Successfully merged PR #'', Fmt pr_number, Lit ''.'']], Return ())
          else
            ([Http (merge_request cfg pr_number),
              Print [Lit ''Error merging PR #'', Fmt pr_number, Lit '': '',
                     Fmt (PyInt (status_code r)), Lit '' '', Fmt (PyStr (body_text r))]],
             Exit 1))"
  by (simp add: merge_pr_def requests_eq and_then_eq prim_defs split: http_result.splits)

lemma create_release_eq:
  "create_release cfg w version =
     (case parse (lstrip CHR ''v'' version) of
        Inl msg \<Rightarrow> ([], Raise (ValueError msg))
      | Inr v \<Rightarrow>
          (case forge w (release_request cfg version v) of
             Failed e \<Rightarrow> ([Http (release_request cfg version v)], Raise e)
           | Response r \<Rightarrow>
               if status_code r = 201 then
                 ([Http (release_request cfg version v),
                   Print [Lit ''Successfully created release '',
                          Fmt (PyStr (release_tag version)), Lit ''.'']], Return ())
               else
                 ([Http (release_request cfg version v),
                   Print [Lit ''Error creating release: '', Fmt (PyInt (status_code r)),
                          Lit '' '', Fmt (PyStr (body_text r))]],
                  Exit 1)))"
  by (simp add: create_release_def requests_eq and_then_eq prim_defs
           split: sum.splits http_result.splits)

lemma op_of_requests [simp]:
  "op_of (latest_request cfg) = [LatestRelease]"
  "op_of (pr_request cfg t) = [OpenPullRequest]"
  "op_of (merge_request cfg n) = [MergePullRequest]"
  "op_of (release_request cfg t v) = [PublishRelease]"
  by (simp_all add: op_of_def latest_request_def pr_request_def merge_request_def
                    release_request_def)

lemma forge_of_requests [simp]:
  "forge_of a b c d (latest_request cfg) = a"
  "forge_of a b c d (pr_request cfg t) = b"
  "forge_of a b c d (merge_request cfg n) = c"
  "forge_of a b c d (release_request cfg t v) = d"
  by (simp_all add: forge_of_def)

lemma world_of_simps [simp]:
  "forge (world_of m f) = f"
  "path_exists (world_of m f) p = (m \<and> p = ''library.properties'')"
  "run_lint (world_of m f) = lint_passes"
  by (simp_all add: world_of_def)

lemma validate_library_metadata_eq:
  "validate_library_metadata w =
     (if path_exists w ''library.properties''
      then ([PathExists ''library.properties'', Print [Lit ''library.properties found.'']],
            Return ())
      else ([PathExists ''library.properties'',
             Print [Lit ''Error: library.properties file is missing.'']], Exit 1))"
  by (simp add: validate_library_metadata_def prim_defs)

lemma validate_code_style_eq:
  "validate_code_style cfg w =
     (case LINT_MODE cfg of
        None \<Rightarrow> ([], Raise TypeError)
      | Some lm \<Rightarrow>
         (case run_lint w [''arduino-lint'', ''--library-manager'', lm] of
            Completed out \<Rightarrow>
              (SubprocessRun [PyStr ''arduino-lint'', PyStr ''--library-manager'', PyStr lm]
               # Print [Lit ''Code style validation passed.'']
               # (if out \<noteq> [] then [Print [Fmt (PyStr out)]] else []), Return ())
          | CalledProcessError out err \<Rightarrow>
              (SubprocessRun [PyStr ''arduino-lint'', PyStr ''--library-manager'', PyStr lm]
               # Print [Lit ''Error: Code style validation failed.'']
               # (if out \<noteq> [] then [Print [Lit ''stdout:\<newline>'', Fmt (PyStr out)]] else [])
               @ (if err \<noteq> [] then [Print [Lit ''stderr:\<newline>'', Fmt (PyStr err)]] else []),
               Exit 1)
          | NotStarted e \<Rightarrow>
              ([SubprocessRun [PyStr ''arduino-lint'', PyStr ''--library-manager'', PyStr lm]],
               Raise e)))"
  by (simp add: validate_code_style_def subprocess_run_def prim_defs and_then_eq
           split: option.splits lint_result.splits)

lemma validate_version_checks:
  "checks_run (fst (validate_version a b)) =
     (case snd (validate_version a b) of Raise e \<Rightarrow> [] | _ \<Rightarrow> [VersionCheck])"
  by (cases a; cases b)
     (simp_all add: validate_version_def try_parse_def prim_defs and_then_eq verdict_defs
               split: sum.splits)

lemma validate_version_requests: "http_requests (fst (validate_version a b)) = []"
  by (cases a; cases b)
     (simp_all add: validate_version_def try_parse_def prim_defs and_then_eq
               split: sum.splits)

lemma validate_version_Return:
  "snd (validate_version (PyStr a) b) = Return () \<Longrightarrow> \<exists>v. parse (lstrip CHR ''v'' a) = Inr v"
  by (cases b)
     (simp_all add: validate_version_def try_parse_def prim_defs and_then_eq
               split: sum.splits if_splits)

lemma validate_version_not_isl:
  "snd (validate_version (PyStr a) b) = Return () \<Longrightarrow> \<not> isl (parse (lstrip CHR ''v'' a))"
  using validate_version_Return [of a b] by auto

lemma validate_version_exit_code:
  "exit_code (snd (validate_version a b)) =
     (if snd (validate_version a b) = Return () then 0 else 1)"
  by (cases a; cases b)
     (simp_all add: validate_version_def try_parse_def prim_defs and_then_eq
               split: sum.splits)

lemma and_then_unit:
  "and_then (m :: unit run) (k :: unit \<Rightarrow> unit run) =
     (if snd m = Return () then (fst m @ fst (k ()), snd (k ())) else m)"
  by (cases m; cases "snd m") auto

lemma and_then_pyval:
  "and_then (m :: pyval run) k =
     (case snd m of
        Return x \<Rightarrow> (fst m @ fst (k x), snd (k x))
      | Exit n \<Rightarrow> (fst m, Exit n)
      | Raise e \<Rightarrow> (fst m, Raise e))"
  by (rule and_then_eq)

lemma validate_code_style_checks:
  "checks_run (fst (validate_code_style cfg w)) =
     (if LINT_MODE cfg = None then [] else [StyleCheck])"
  by (simp add: validate_code_style_eq verdict_defs split: option.splits lint_result.splits)

lemma validate_code_style_requests: "http_requests (fst (validate_code_style cfg w)) = []"
  by (simp add: validate_code_style_eq split: option.splits lint_result.splits)

lemma accepted_append [simp]:
  "accepted w op c (xs @ ys) = (accepted w op c xs \<or> accepted w op c ys)"
  by (simp add: accepted_def)

lemma accepted_Nil [simp]: "accepted w op c [] = False"
  by (simp add: accepted_def)

lemma accepted_Cons [simp]:
  "accepted w op c (Print s # es) = accepted w op c es"
  "accepted w op c (PathExists p # es) = accepted w op c es"
  "accepted w op c (SubprocessRun args # es) = accepted w op c es"
  "accepted w op c (Http rq # es) =
     ((op_of rq = [op]
       \<and> (case forge w rq of Response r \<Rightarrow> status_code r = c | Failed e \<Rightarrow> False))
      \<or> accepted w op c es)"
  by (simp_all add: accepted_def)

lemma validate_version_calls [simp]: "forge_calls (fst (validate_version a b)) = []"
  by (simp add: forge_calls_def validate_version_requests)

lemma validate_version_accepted [simp]: "accepted w op c (fst (validate_version a b)) = False"
  by (simp add: accepted_def validate_version_requests)

lemma metadata_summary [simp]:
  "checks_run (fst (validate_library_metadata w)) = [MetadataCheck]"
  "forge_calls (fst (validate_library_metadata w)) = []"
  "accepted w' op c (fst (validate_library_metadata w)) = False"
  "snd (validate_library_metadata w) =
     (if path_exists w ''library.properties'' then Return () else Exit 1)"
  by (simp_all add: validate_library_metadata_eq verdict_defs)

lemma style_summary [simp]:
  "forge_calls (fst (validate_code_style cfg w)) = []"
  "accepted w' op c (fst (validate_code_style cfg w)) = False"
  by (simp_all add: forge_calls_def accepted_def validate_code_style_requests)

lemma style_exit_code:
  "exit_code (snd (validate_code_style cfg w)) =
     (if snd (validate_code_style cfg w) = Return () then 0 else 1)"
  by (simp add: validate_code_style_eq split: option.splits lint_result.splits)

lemma style_Return:
  "snd (validate_code_style cfg w) = Return () \<Longrightarrow> LINT_MODE cfg \<noteq> None"
  by (simp add: validate_code_style_eq split: option.splits lint_result.splits)

lemma merge_summary [simp]:
  "checks_run (fst (merge_pr cfg w n)) = []"
  "forge_calls (fst (merge_pr cfg w n)) = [MergePullRequest]"
  "accepted w MergePullRequest 200 (fst (merge_pr cfg w n)) = (snd (merge_pr cfg w n) = Return ())"
  "accepted w PublishRelease 201 (fst (merge_pr cfg w n)) = False"
  by (simp_all add: merge_pr_eq verdict_defs accepted_def split: http_result.splits)

lemma merge_exit_code:
  "exit_code (snd (merge_pr cfg w n)) = (if snd (merge_pr cfg w n) = Return () then 0 else 1)"
  by (simp add: merge_pr_eq split: http_result.splits)

lemma release_summary [simp]:
  "checks_run (fst (create_release cfg w t)) = []"
  "forge_calls (fst (create_release cfg w t)) =
     (if isl (parse (lstrip CHR ''v'' t)) then [] else [PublishRelease])"
  "accepted w MergePullRequest 200 (fst (create_release cfg w t)) = False"
  "accepted w PublishRelease 201 (fst (create_release cfg w t))
     = (snd (create_release cfg w t) = Return ())"
  by (simp_all add: create_release_eq verdict_defs accepted_def
               split: http_result.splits sum.splits)

lemma release_exit_code:
  "exit_code (snd (create_release cfg w t)) =
     (if snd (create_release cfg w t) = Return () then 0 else 1)"
  by (simp add: create_release_eq split: http_result.splits sum.splits)

lemma create_pr_summary [simp]:
  "checks_run (fst (create_pr cfg w t)) = []"
  "forge_calls (fst (create_pr cfg w t)) = [OpenPullRequest]"
  "accepted w MergePullRequest 200 (fst (create_pr cfg w t)) = False"
  "accepted w PublishRelease 201 (fst (create_pr cfg w t)) = False"
  by (simp_all add: create_pr_eq verdict_defs accepted_def
               split: http_result.splits option.splits result.splits)

lemma latest_summary [simp]:
  "checks_run (fst (get_latest_release_version cfg w)) = []"
  "forge_calls (fst (get_latest_release_version cfg w)) = [LatestRelease]"
  "accepted w MergePullRequest 200 (fst (get_latest_release_version cfg w)) = False"
  "accepted w PublishRelease 201 (fst (get_latest_release_version cfg w)) = False"
  by (simp_all add: get_latest_release_version_eq verdict_defs accepted_def
               split: http_result.splits option.splits)

lemma print_summary [simp]:
  "fst (print s) = [Print s]" "snd (print s) = Return ()"
  by (simp_all add: print_def)

text \<open>
  What a run of the pull-request handler shows, step by step: the checks it ran, the
  operations it requested, whether the merge and the release were accepted, and how it
  ended.
\<close>

lemma pr_summary:
  assumes "pr_version cfg = Some pv" "main_version cfg = Some mv" "PR_NUMBER cfg = Some pn"
    and "pv \<noteq> []" "mv \<noteq> []" "pn \<noteq> []"
  shows "(checks_run (fst (handle_pull_request cfg w)),
          forge_calls (fst (handle_pull_request cfg w)),
          accepted w MergePullRequest 200 (fst (handle_pull_request cfg w)),
          accepted w PublishRelease 201 (fst (handle_pull_request cfg w)),
          snd (handle_pull_request cfg w)) =
     (if snd (validate_version (PyStr pv) (PyStr mv)) \<noteq> Return () then
        (checks_run (fst (validate_version (PyStr pv) (PyStr mv))), [], False, False,
         snd (validate_version (PyStr pv) (PyStr mv)))
      else if \<not> path_exists w ''library.properties'' then
        ([VersionCheck, MetadataCheck], [], False, False, Exit 1)
      else if snd (validate_code_style cfg w) \<noteq> Return () then
        (VersionCheck # MetadataCheck # checks_run (fst (validate_code_style cfg w)), [],
         False, False, snd (validate_code_style cfg w))
      else if snd (merge_pr cfg w (PyStr pn)) \<noteq> Return () then
        ([VersionCheck, MetadataCheck, StyleCheck], [MergePullRequest], False, False,
         snd (merge_pr cfg w (PyStr pn)))
      else
        ([VersionCheck, MetadataCheck, StyleCheck], [MergePullRequest, PublishRelease], True,
         snd (create_release cfg w pv) = Return (), snd (create_release cfg w pv)))"
  using assms
  by (simp add: handle_pull_request_def and_then_unit verdict_defs validate_version_checks
                validate_code_style_checks validate_version_not_isl style_Return)

text \<open>The same for the tag-push handler, on a ref that names a tag.\<close>

lemma tag_summary:
  assumes "GITHUB_REF cfg = Some ref" "startswith ref ''refs/tags/''"
  shows "(checks_run (fst (handle_tag_push cfg w)),
          forge_calls (fst (handle_tag_push cfg w)),
          accepted w MergePullRequest 200 (fst (handle_tag_push cfg w)),
          accepted w PublishRelease 201 (fst (handle_tag_push cfg w)),
          snd (handle_tag_push cfg w)) =
     (case snd (get_latest_release_version cfg w) of
        Exit n \<Rightarrow> ([], [LatestRelease], False, False, Exit n)
      | Raise e \<Rightarrow> ([], [LatestRelease], False, False, Raise e)
      | Return lv \<Rightarrow>
         if snd (validate_version (PyStr (str_replace ref ''refs/tags/'' [])) lv) \<noteq> Return ()
         then
           (checks_run (fst (validate_version (PyStr (str_replace ref ''refs/tags/'' [])) lv)),
            [LatestRelease], False, False,
            snd (validate_version (PyStr (str_replace ref ''refs/tags/'' [])) lv))
         else if \<not> path_exists w ''library.properties'' then
           ([VersionCheck, MetadataCheck], [LatestRelease], False, False, Exit 1)
         else if snd (validate_code_style cfg w) \<noteq> Return () then
           (VersionCheck # MetadataCheck # checks_run (fst (validate_code_style cfg w)),
            [LatestRelease], False, False, snd (validate_code_style cfg w))
         else
           (case snd (create_pr cfg w (str_replace ref ''refs/tags/'' [])) of
              Exit n \<Rightarrow>
                ([VersionCheck, MetadataCheck, StyleCheck], [LatestRelease, OpenPullRequest],
                 False, False, Exit n)
            | Raise e \<Rightarrow>
                ([VersionCheck, MetadataCheck, StyleCheck], [LatestRelease, OpenPullRequest],
                 False, False, Raise e)
            | Return n \<Rightarrow>
                if snd (merge_pr cfg w n) \<noteq> Return () then
                  ([VersionCheck, MetadataCheck, StyleCheck],
                   [LatestRelease, OpenPullRequest, MergePullRequest], False, False,
                   snd (merge_pr cfg w n))
                else
                  ([VersionCheck, MetadataCheck, StyleCheck],
                   [LatestRelease, OpenPullRequest, MergePullRequest, PublishRelease], True,
                   snd (create_release cfg w (str_replace ref ''refs/tags/'' [])) = Return (),
                   snd (create_release cfg w (str_replace ref ''refs/tags/'' [])))))"
proof -
  have ref: "ref \<noteq> []"
    using assms(2) by (auto simp add: startswith_def)
  let ?t = "str_replace ref ''refs/tags/'' []"
  note defs = handle_tag_push_def Let_def and_then_unit and_then_pyval verdict_defs
    validate_version_checks validate_code_style_checks validate_version_not_isl style_Return
  show ?thesis
  proof (cases "snd (get_latest_release_version cfg w)")
    case (Exit n)
    with assms ref show ?thesis by (simp add: defs)
  next
    case (Raise e)
    with assms ref show ?thesis by (simp add: defs)
  next
    case L: (Return lv)
    show ?thesis
    proof (cases "snd (validate_version (PyStr ?t) lv) = Return ()")
      case False
      with assms ref L show ?thesis by (simp add: defs)
    next
      case V: True
      show ?thesis
      proof (cases "path_exists w ''library.properties''")
        case False
        with assms ref L V show ?thesis by (simp add: defs)
      next
        case M: True
        show ?thesis
        proof (cases "snd (validate_code_style cfg w) = Return ()")
          case False
          with assms ref L V M show ?thesis by (simp add: defs)
        next
          case S: True
          show ?thesis
          proof (cases "snd (create_pr cfg w ?t)")
            case (Exit n)
            with assms ref L V M S show ?thesis by (simp add: defs)
          next
            case (Raise e)
            with assms ref L V M S show ?thesis by (simp add: defs)
          next
            case P: (Return n)
            show ?thesis
            proof (cases "snd (merge_pr cfg w n) = Return ()")
              case False
              with assms ref L V M S P show ?thesis by (simp add: defs)
            next
              case True
              with assms ref L V M S P show ?thesis by (simp add: defs)
            qed
          qed
        qed
      qed
    qed
  qed
qed

lemma pr_missing:
  assumes "\<not> (\<exists>pv mv pn. pr_version cfg = Some pv \<and> main_version cfg = Some mv
              \<and> PR_NUMBER cfg = Some pn \<and> pv \<noteq> [] \<and> mv \<noteq> [] \<and> pn \<noteq> [])"
  shows "handle_pull_request cfg w =
           ([Print [Lit ''-- Handling Pull Request --''],
             Print [Lit ''Error: Missing pr_version, main_version, or PR_NUMBER env variables.'']],
            Exit 1)"
  using assms
  by (cases "pr_version cfg"; cases "main_version cfg"; cases "PR_NUMBER cfg")
     (auto simp add: handle_pull_request_def prim_defs)

lemma tag_skipped:
  assumes "\<not> (\<exists>ref. GITHUB_REF cfg = Some ref \<and> startswith ref ''refs/tags/'')"
  shows "handle_tag_push cfg w =
           ([Print [Lit ''-- Handling Tag Push --''],
             Print [Lit ''This push is not a tag push. Skipping.'']], Return ())"
  using assms
  by (cases "GITHUB_REF cfg") (auto simp add: handle_tag_push_def prim_defs)

lemma main_pull_request:
  "GITHUB_EVENT_NAME cfg = Some ''pull_request'' \<Longrightarrow> main cfg w = handle_pull_request cfg w"
  by (simp add: main_def)

lemma main_push:
  "GITHUB_EVENT_NAME cfg = Some ''push'' \<Longrightarrow> main cfg w = handle_tag_push cfg w"
  by (simp add: main_def)

lemma main_other:
  "GITHUB_EVENT_NAME cfg \<noteq> Some ''pull_request'' \<Longrightarrow> GITHUB_EVENT_NAME cfg \<noteq> Some ''push'' \<Longrightarrow>
   main cfg w = ([Print [Lit ''Warning: Unsupported event type '', Lit [CHR 0x27],
                  Fmt (of_env (GITHUB_EVENT_NAME cfg)), Lit [CHR 0x27], Lit ''. Skipping.'']],
                 Return ())"
  by (simp add: main_def prim_defs)

lemmas outcome_simps = validate_version_checks validate_code_style_checks
  validate_version_exit_code style_exit_code merge_exit_code release_exit_code

lemma version_examples:
  "snd (validate_version (PyStr ''2.0.0'') (PyStr ''1.9.0'')) = Return ()"
  "snd (validate_version (PyStr ''v0.1.0'') (PyStr ''0.0.0'')) = Return ()"
  "snd (validate_version (PyStr ''v0.0.0'') (PyStr ''0.0.0'')) = Exit 1"
  "checks_run (fst (validate_version (PyStr ''v0.0.0'') (PyStr ''0.0.0''))) = [VersionCheck]"
  by (simp_all add: validate_version_cases parse_examples lstrip_def compare_def cmp_nat_def
                    nat_cmp_def split_key_def convert_def verdict_defs)

lemma style_examples:
  "snd (validate_code_style (pull_request_cfg a b) (world_of m f)) = Return ()"
  "snd (validate_code_style (push_cfg r) (world_of m f)) = Return ()"
  by (simp_all add: validate_code_style_eq pull_request_cfg_def push_cfg_def base_cfg_def
                    lint_passes_def)

lemma new_tag_examples:
  "str_replace ''refs/tags/v0.1.0'' ''refs/tags/'' [] = ''v0.1.0''"
  "str_replace ''refs/tags/v0.0.0'' ''refs/tags/'' [] = ''v0.0.0''"
  by (simp_all add: str_replace.simps)

lemma cfg_examples:
  "GITHUB_EVENT_NAME (pull_request_cfg a b) = Some ''pull_request''"
  "pr_version (pull_request_cfg a b) = Some a"
  "main_version (pull_request_cfg a b) = Some b"
  "PR_NUMBER (pull_request_cfg a b) = Some ''7''"
  "GITHUB_EVENT_NAME (push_cfg r) = Some ''push''"
  "GITHUB_REF (push_cfg r) = Some r"
  by (simp_all add: pull_request_cfg_def push_cfg_def base_cfg_def)

lemma nat_cmp_empty:
  "nat_cmp None None = 0" "nat_cmp (Some []) None = 0"
  by (simp_all add: nat_cmp_def split_key_def convert_def cmp_nat_def)

lemma compare_zero:
  "compare c \<lparr>major = 0, minor = 0, patch = 0, prerelease = None, build = None\<rparr> \<le> 0
     \<longleftrightarrow> major c = 0 \<and> minor c = 0 \<and> patch c = 0"
  by (auto simp add: compare_def cmp_nat_def nat_cmp_empty)

text \<open>
  On versions without a pre-release label \<open>compare\<close> is the lexicographic order of
  major, minor and patch.
\<close>

lemma compare_release:
  assumes "prerelease a = None" "prerelease b = None"
  shows "0 < compare a b \<longleftrightarrow>
           major b < major a
           \<or> (major a = major b
               \<and> (minor b < minor a \<or> (minor a = minor b \<and> patch b < patch a)))"
  using assms by (auto simp add: compare_def cmp_nat_def nat_cmp_empty)

text \<open>A version with a pre-release label is below the same version without one.\<close>

lemma compare_prerelease_below:
  assumes "major a = major b" "minor a = minor b" "patch a = patch b"
    and "prerelease a = Some p" "p \<noteq> []" "prerelease b = None"
  shows "compare a b \<le> 0"
  using assms by (auto simp add: compare_def cmp_nat_def)

lemma parse_more_examples:
  "parse ''1.0.0'' = Inr \<lparr>major = 1, minor = 0, patch = 0, prerelease = None, build = None\<rparr>"
  "parse ''1.3.0'' = Inr \<lparr>major = 1, minor = 3, patch = 0, prerelease = None, build = None\<rparr>"
  "parse ''v1.2.3'' = Inl ''v1.2.3 is not valid SemVer string''"
  "parse [] = Inl '' is not valid SemVer string''"
  by (simp_all add: semver_defs)

lemma parse_not_empty: "parse (lstrip CHR ''v'' s) = Inr v \<Longrightarrow> s \<noteq> []"
  by (auto simp add: lstrip_def parse_more_examples)

lemma create_release_flag:
  "parse (lstrip CHR ''v'' t) = Inr v \<Longrightarrow>
   \<forall>rq \<in> set (http_requests (fst (create_release cfg w t))).
     \<exists>d. json rq = Some (PyDict d)
       \<and> map_of d ''prerelease'' = Some (PyBool (prerelease v \<noteq> None))"
  by (simp add: create_release_requests release_request_def)

lemma validate_version_PyStr_checks:
  "checks_run (fst (validate_version (PyStr a) (PyStr b))) = [VersionCheck]"
  by (simp add: validate_version_cases verdict_defs split: sum.splits)

lemma validate_version_Exit: "snd (validate_version a b) = Exit n \<Longrightarrow> n = 1"
  by (cases a; cases b)
     (auto simp add: validate_version_def try_parse_def prim_defs and_then_eq
           split: sum.splits if_splits)

lemma validate_version_PyStr_no_Raise [simp]:
  "snd (validate_version (PyStr a) (PyStr b)) \<noteq> Raise e"
  by (simp add: validate_version_cases split: sum.splits)

lemma merge_Return_iff:
  "(snd (merge_pr cfg w n) = Return ()) =
     (\<exists>r. forge w (merge_request cfg n) = Response r \<and> status_code r = 200)"
  by (simp add: merge_pr_eq split: http_result.splits)

lemma release_Return_iff:
  "parse (lstrip CHR ''v'' t) = Inr v \<Longrightarrow>
   (snd (create_release cfg w t) = Return ()) =
     (\<exists>r. forge w (release_request cfg t v) = Response r \<and> status_code r = 201)"
  by (simp add: create_release_eq split: http_result.splits)

lemma version_more_examples:
  "snd (validate_version (PyStr ''1.0.0'') (PyStr ''2.0.0'')) = Exit 1"
  "snd (validate_version (PyStr ''1.3.0-rc.1'') (PyStr ''1.2.0'')) = Return ()"
  "snd (validate_version (PyStr ''1.3.0'') (PyStr ''1.2.0'')) = Return ()"
  by (simp_all add: validate_version_cases parse_examples parse_more_examples lstrip_def
                    compare_def cmp_nat_def)

lemma forge_examples:
  "snd (get_latest_release_version cfg (world_of m (forge_of no_release_yet b c d)))
     = Return (PyStr ''0.0.0'')"
  "snd (create_pr cfg (world_of m (forge_of a pr_created c d)) t) = Return (PyInt 12)"
  "snd (create_pr cfg (world_of m (forge_of a pr_duplicate c d)) t) = Exit 0"
  "snd (merge_pr cfg (world_of m (forge_of a b merged_ok d)) n) = Return ()"
  "snd (merge_pr cfg (world_of m forge_rejects) n) = Exit 1"
  by (simp_all add: get_latest_release_version_eq create_pr_eq merge_pr_eq
                    no_release_yet_def pr_created_def pr_duplicate_def merged_ok_def
                    forge_rejects_def plain_response_def prim_defs)

lemma release_examples:
  "\<not> isl (parse (lstrip CHR ''v'' t)) \<Longrightarrow>
   snd (create_release cfg (world_of m (forge_of a b c published_ok)) t) = Return ()"
  by (cases "parse (lstrip CHR ''v'' t)")
     (simp_all add: create_release_eq published_ok_def plain_response_def)

lemma json_release_request:
  "json (release_request cfg t v) =
     Some (PyDict
       [(''tag_name'', PyStr (release_tag t)),
        (''name'', PyStr (''Release '' @ release_tag t)),
        (''body'', PyStr (''Automated release for version '' @ release_tag t @ ''.'')),
        (''draft'', PyBool False),
        (''prerelease'', PyBool (prerelease v \<noteq> None))])"
  by (simp add: release_request_def)

lemma str_replace_more_examples:
  "str_replace ''refs/tags/v1.3.0-rc.1'' ''refs/tags/'' [] = ''v1.3.0-rc.1''"
  by (simp add: str_replace.simps)

lemma parse_rc_examples:
  "parse (lstrip CHR ''v'' ''v1.3.0-rc.1'') =
     Inr \<lparr>major = 1, minor = 3, patch = 0, prerelease = Some ''rc.1'', build = None\<rparr>"
  "parse (lstrip CHR ''v'' ''1.3.0-rc.1'') =
     Inr \<lparr>major = 1, minor = 3, patch = 0, prerelease = Some ''rc.1'', build = None\<rparr>"
  "parse (lstrip CHR ''v'' ''1.3.0'') =
     Inr \<lparr>major = 1, minor = 3, patch = 0, prerelease = None, build = None\<rparr>"
  "parse (lstrip CHR ''v'' ''v1.2.0'') =
     Inr \<lparr>major = 1, minor = 2, patch = 0, prerelease = None, build = None\<rparr>"
  "parse (lstrip CHR ''v'' ''1.2.0'') =
     Inr \<lparr>major = 1, minor = 2, patch = 0, prerelease = None, build = None\<rparr>"
  by (simp_all add: lstrip_def parse_examples parse_more_examples)

lemma pr_release_request:
  assumes "pr_version cfg = Some pv" "main_version cfg = Some mv" "PR_NUMBER cfg = Some pn"
    and "pv \<noteq> []" "mv \<noteq> []" "pn \<noteq> []"
    and "snd (validate_version (PyStr pv) (PyStr mv)) = Return ()"
    and "path_exists w ''library.properties''"
    and "snd (validate_code_style cfg w) = Return ()"
    and "snd (merge_pr cfg w (PyStr pn)) = Return ()"
    and "parse (lstrip CHR ''v'' pv) = Inr v"
  shows "last (http_requests (fst (handle_pull_request cfg w))) = release_request cfg pv v"
  using assms
  by (simp add: handle_pull_request_def and_then_unit validate_version_requests
                validate_library_metadata_eq validate_code_style_requests
                create_release_requests merge_pr_eq split: http_result.splits)

section \<open>A push that is not a tag push\<close>

text \<open>
  Claim C8. For every push event whose ref is not a tag reference (it is unset, empty,
  or does not start with \<open>refs/tags/\<close>), the run prints its two lines and returns: no
  check is run, no request is sent to the forge, and the exit status is 0.
\<close>

theorem non_tag_push_is_noop:
  assumes "GITHUB_EVENT_NAME cfg = Some ''push''"
    and "\<forall>ref. GITHUB_REF cfg = Some ref \<longrightarrow> \<not> startswith ref ''refs/tags/''"
  shows "main cfg w =
           ([Print [Lit ''-- Handling Tag Push --''],
             Print [Lit ''This push is not a tag push. Skipping.'']], Return ())
         \<and> checks_run (fst (main cfg w)) = []
         \<and> http_requests (fst (main cfg w)) = []
         \<and> exit_code (snd (main cfg w)) = 0"
proof -
  have run: "main cfg w =
           ([Print [Lit ''-- Handling Tag Push --''],
             Print [Lit ''This push is not a tag push. Skipping.'']], Return ())"
    using assms
    by (cases "GITHUB_REF cfg") (simp_all add: main_def handle_tag_push_def prim_defs)
  show ?thesis
    unfolding run by (simp add: verdict_defs)
qed

theorem non_tag_push_is_noop_witness:
  "GITHUB_EVENT_NAME (push_cfg ''refs/heads/main'') = Some ''push''
   \<and> \<not> startswith ''refs/heads/main'' ''refs/tags/''
   \<and> http_requests (fst (main (push_cfg ''refs/heads/main'') (world_of True forge_accepts))) = []
   \<and> exit_code (snd (main (push_cfg ''refs/heads/main'') (world_of True forge_accepts))) = 0"
  using non_tag_push_is_noop
          [of "push_cfg ''refs/heads/main''" "world_of True forge_accepts"]
  by (simp add: push_cfg_def base_cfg_def startswith_def)

section \<open>The version check\<close>

text \<open>
  Claim C1. For every pair of version strings that parse once their leading \<open>v\<close>s are
  removed, \<open>validate_version\<close> returns exactly when the candidate compares strictly
  above the baseline. When it does not, the check prints the line that says the new
  version is not greater as its last event and exits with status 1, and whatever the
  caller would have done next is not run.
\<close>

theorem version_check_passes_iff_advanced:
  assumes "parse (lstrip CHR ''v'' candidate) = Inr c"
    and "parse (lstrip CHR ''v'' baseline) = Inr b"
  shows "(snd (validate_version (PyStr candidate) (PyStr baseline)) = Return ()
            \<longleftrightarrow> 0 < compare c b)
       \<and> (compare c b \<le> 0 \<longrightarrow>
            snd (validate_version (PyStr candidate) (PyStr baseline)) = Exit 1
            \<and> version_not_advanced (last (fst (validate_version (PyStr candidate) (PyStr baseline))))
            \<and> (\<forall>k. and_then (validate_version (PyStr candidate) (PyStr baseline)) k
                   = (fst (validate_version (PyStr candidate) (PyStr baseline)), Exit 1)))"
  using assms by (simp add: validate_version_cases verdict_defs)

theorem version_check_passes_iff_advanced_witness:
  "parse (lstrip CHR ''v'' ''v1.2.0'') =
     Inr \<lparr>major = 1, minor = 2, patch = 0, prerelease = None, build = None\<rparr>
   \<and> snd (validate_version (PyStr ''v1.2.0'') (PyStr ''1.1.0'')) = Return ()
   \<and> snd (validate_version (PyStr ''1.1.0'') (PyStr ''1.1.0'')) = Exit 1
   \<and> version_not_advanced (last (fst (validate_version (PyStr ''1.1.0'') (PyStr ''1.1.0''))))"
  using version_check_passes_iff_advanced
          [of "''v1.2.0''" "\<lparr>major = 1, minor = 2, patch = 0, prerelease = None, build = None\<rparr>"
              "''1.1.0''" "\<lparr>major = 1, minor = 1, patch = 0, prerelease = None, build = None\<rparr>"]
        version_check_passes_iff_advanced
          [of "''1.1.0''" "\<lparr>major = 1, minor = 1, patch = 0, prerelease = None, build = None\<rparr>"
              "''1.1.0''" "\<lparr>major = 1, minor = 1, patch = 0, prerelease = None, build = None\<rparr>"]
  by (auto simp add: parse_examples lstrip_def compare_def cmp_nat_def nat_cmp_def split_key_def convert_def)




text \<open>
  Claim C6, as the code has it. Whenever the candidate compares strictly above the
  baseline, \<open>validate_version\<close> prints the warning if the candidate has a pre-release
  label, then the line of a passed check, and returns. The run of \<open>main\<close> then goes on
  with the same steps whether or not the warning was printed: on the pull-request path
  the metadata check, the style check, the merge and the release; on the tag path the
  metadata check, the style check, the pull request, the merge and the release. The
  request of \<open>create_release\<close> carries \<open>prerelease\<close> set exactly when the candidate has
  a pre-release label.
\<close>

theorem prerelease_warns_and_passes:
  assumes "parse (lstrip CHR ''v'' candidate) = Inr c"
    and "parse (lstrip CHR ''v'' baseline) = Inr b"
    and "0 < compare c b"
  shows "validate_version (PyStr candidate) (PyStr baseline) =
           ((if prerelease c \<noteq> None
             then [Print [Lit ''Warning: New version '', Lit [CHR 0x27], Fmt (PyStr candidate),
                          Lit [CHR 0x27], Lit '' is a pre-release.'']]
             else []) @
            [Print [Lit ''Version validation passed: '', Fmt (PyStr baseline), Lit '' -> '',
                    Fmt (PyStr candidate)]], Return ())
     \<and> (GITHUB_EVENT_NAME cfg = Some ''pull_request'' \<and> pr_version cfg = Some candidate
          \<and> main_version cfg = Some baseline \<and> PR_NUMBER cfg = Some pn \<and> pn \<noteq> [] \<longrightarrow>
        main cfg w =
          and_then
            (Print [Lit ''-- Handling Pull Request --'']
             # fst (validate_version (PyStr candidate) (PyStr baseline)), Return ())
            (\<lambda>_. and_then (validate_library_metadata w) (\<lambda>_.
                  and_then (validate_code_style cfg w) (\<lambda>_.
                  and_then (merge_pr cfg w (PyStr pn)) (\<lambda>_.
                  and_then (create_release cfg w candidate) (\<lambda>_.
                    print [Lit ''-- Pull Request Handled Successfully --'']))))))
     \<and> (GITHUB_EVENT_NAME cfg = Some ''push'' \<and> GITHUB_REF cfg = Some ref
          \<and> startswith ref ''refs/tags/'' \<and> str_replace ref ''refs/tags/'' [] = candidate
          \<and> get_latest_release_version cfg w = (looked_up, Return (PyStr baseline)) \<longrightarrow>
        main cfg w =
          and_then
            ([Print [Lit ''-- Handling Tag Push --''],
              Print [Lit ''Detected new tag: '', Fmt (PyStr candidate)]]
             @ looked_up
             @ [Print [Lit ''Latest release version on '', Lit [CHR 0x27],
                       Fmt (of_env (TARGET_BRANCH cfg)), Lit [CHR 0x27], Lit '' is '',
                       Lit [CHR 0x27], Fmt (PyStr baseline), Lit [CHR 0x27], Lit ''.'']]
             @ fst (validate_version (PyStr candidate) (PyStr baseline)), Return ())
            (\<lambda>_. and_then (validate_library_metadata w) (\<lambda>_.
                  and_then (validate_code_style cfg w) (\<lambda>_.
                  and_then
                    (print [Lit ''Creating PR from '', Lit [CHR 0x27],
                            Fmt (of_env (SOURCE_BRANCH cfg)), Lit [CHR 0x27], Lit '' to '',
                            Lit [CHR 0x27], Fmt (of_env (TARGET_BRANCH cfg)), Lit [CHR 0x27],
                            Lit ''...''])
                    (\<lambda>_.
                  and_then (create_pr cfg w candidate) (\<lambda>pr_number.
                  and_then (merge_pr cfg w pr_number) (\<lambda>_.
                  and_then (create_release cfg w candidate) (\<lambda>_.
                    print [Lit ''-- Tag Push Handled Successfully --''])))))))) 
     \<and> (\<forall>rq \<in> set (http_requests (fst (create_release cfg w candidate))).
           \<exists>d. json rq = Some (PyDict d)
             \<and> map_of d ''prerelease'' = Some (PyBool (prerelease c \<noteq> None)))"
proof -
  have V: "validate_version (PyStr candidate) (PyStr baseline) =
           ((if prerelease c \<noteq> None
             then [Print [Lit ''Warning: New version '', Lit [CHR 0x27], Fmt (PyStr candidate),
                          Lit [CHR 0x27], Lit '' is a pre-release.'']]
             else []) @
            [Print [Lit ''Version validation passed: '', Fmt (PyStr baseline), Lit '' -> '',
                    Fmt (PyStr candidate)]], Return ())"
    using assms by (simp add: validate_version_cases)
  have ne: "candidate \<noteq> []" "baseline \<noteq> []"
    using assms parse_not_empty by blast+
  have pr: "GITHUB_EVENT_NAME cfg = Some ''pull_request'' \<and> pr_version cfg = Some candidate
          \<and> main_version cfg = Some baseline \<and> PR_NUMBER cfg = Some pn \<and> pn \<noteq> [] \<longrightarrow>
        main cfg w =
          and_then
            (Print [Lit ''-- Handling Pull Request --'']
             # fst (validate_version (PyStr candidate) (PyStr baseline)), Return ())
            (\<lambda>_. and_then (validate_library_metadata w) (\<lambda>_.
                  and_then (validate_code_style cfg w) (\<lambda>_.
                  and_then (merge_pr cfg w (PyStr pn)) (\<lambda>_.
                  and_then (create_release cfg w candidate) (\<lambda>_.
                    print [Lit ''-- Pull Request Handled Successfully --''])))))"
    using ne by (simp add: main_def handle_pull_request_def V print_def)
  have tag: "GITHUB_EVENT_NAME cfg = Some ''push'' \<and> GITHUB_REF cfg = Some ref
          \<and> startswith ref ''refs/tags/'' \<and> str_replace ref ''refs/tags/'' [] = candidate
          \<and> get_latest_release_version cfg w = (looked_up, Return (PyStr baseline)) \<longrightarrow>
        main cfg w =
          and_then
            ([Print [Lit ''-- Handling Tag Push --''],
              Print [Lit ''Detected new tag: '', Fmt (PyStr candidate)]]
             @ looked_up
             @ [Print [Lit ''Latest release version on '', Lit [CHR 0x27],
                       Fmt (of_env (TARGET_BRANCH cfg)), Lit [CHR 0x27], Lit '' is '',
                       Lit [CHR 0x27], Fmt (PyStr baseline), Lit [CHR 0x27], Lit ''.'']]
             @ fst (validate_version (PyStr candidate) (PyStr baseline)), Return ())
            (\<lambda>_. and_then (validate_library_metadata w) (\<lambda>_.
                  and_then (validate_code_style cfg w) (\<lambda>_.
                  and_then
                    (print [Lit ''Creating PR from '', Lit [CHR 0x27],
                            Fmt (of_env (SOURCE_BRANCH cfg)), Lit [CHR 0x27], Lit '' to '',
                            Lit [CHR 0x27], Fmt (of_env (TARGET_BRANCH cfg)), Lit [CHR 0x27],
                            Lit ''...''])
                    (\<lambda>_.
                  and_then (create_pr cfg w candidate) (\<lambda>pr_number.
                  and_then (merge_pr cfg w pr_number) (\<lambda>_.
                  and_then (create_release cfg w candidate) (\<lambda>_.
                    print [Lit ''-- Tag Push Handled Successfully --''])))))))"
    by (auto simp add: main_def handle_tag_push_def Let_def V print_def startswith_def)
  have flag: "\<forall>rq \<in> set (http_requests (fst (create_release cfg w candidate))).
           \<exists>d. json rq = Some (PyDict d)
             \<and> map_of d ''prerelease'' = Some (PyBool (prerelease c \<noteq> None))"
    using create_release_flag [OF assms(1)] by blast
  from V pr tag flag show ?thesis by blast
qed

theorem prerelease_warns_and_passes_witness:
  "snd (main (pull_request_cfg ''1.3.0-rc.1'' ''1.2.0'') (world_of True forge_accepts))
     = Return ()
   \<and> take 3 (fst (main (pull_request_cfg ''1.3.0-rc.1'' ''1.2.0'')
                       (world_of True forge_accepts))) =
       [Print [Lit ''-- Handling Pull Request --''],
        Print [Lit ''Warning: New version '', Lit [CHR 0x27], Fmt (PyStr ''1.3.0-rc.1''),
               Lit [CHR 0x27], Lit '' is a pre-release.''],
        Print [Lit ''Version validation passed: '', Fmt (PyStr ''1.2.0''), Lit '' -> '',
               Fmt (PyStr ''1.3.0-rc.1'')]]
   \<and> forge_calls (fst (main (pull_request_cfg ''1.3.0-rc.1'' ''1.2.0'')
                            (world_of True forge_accepts)))
       = [MergePullRequest, PublishRelease]
   \<and> snd (main (push_cfg ''refs/tags/v1.3.0-rc.1'')
               (world_of True (forge_of release_found pr_created merged_ok published_ok)))
     = Return ()
   \<and> forge_calls (fst (main (push_cfg ''refs/tags/v1.3.0-rc.1'')
               (world_of True (forge_of release_found pr_created merged_ok published_ok))))
       = [LatestRelease, OpenPullRequest, MergePullRequest, PublishRelease]"
  using prerelease_warns_and_passes
          [of "''1.3.0-rc.1''"
              "\<lparr>major = 1, minor = 3, patch = 0, prerelease = Some ''rc.1'', build = None\<rparr>"
              "''1.2.0''" "\<lparr>major = 1, minor = 2, patch = 0, prerelease = None, build = None\<rparr>"
              "pull_request_cfg ''1.3.0-rc.1'' ''1.2.0''" "''7''" "world_of True forge_accepts"]
        prerelease_warns_and_passes
          [of "''v1.3.0-rc.1''"
              "\<lparr>major = 1, minor = 3, patch = 0, prerelease = Some ''rc.1'', build = None\<rparr>"
              "''v1.2.0''" "\<lparr>major = 1, minor = 2, patch = 0, prerelease = None, build = None\<rparr>"
              "push_cfg ''refs/tags/v1.3.0-rc.1''" _
              "world_of True (forge_of release_found pr_created merged_ok published_ok)"
              "''refs/tags/v1.3.0-rc.1''"
              "[Http (latest_request (push_cfg ''refs/tags/v1.3.0-rc.1''))]"]
  by (auto simp add: parse_rc_examples compare_def cmp_nat_def cfg_examples
                str_replace_more_examples
                startswith_def get_latest_release_version_eq release_found_def prim_defs
                validate_library_metadata_eq validate_code_style_eq lint_passes_def
                pull_request_cfg_def push_cfg_def base_cfg_def
                create_pr_eq pr_created_def merge_pr_eq merged_ok_def create_release_eq
                published_ok_def plain_response_def forge_accepts_def verdict_defs)

text \<open>
  The release of the candidate \<open>1.3.0-rc.1\<close> is requested with \<open>prerelease\<close> true, that
  of \<open>1.3.0\<close> with \<open>prerelease\<close> false.
\<close>

theorem prerelease_release_is_flagged:
  "json (last (http_requests
          (fst (main (pull_request_cfg ''1.3.0-rc.1'' ''1.2.0'') (world_of True forge_accepts)))))
     = Some (PyDict
         [(''tag_name'', PyStr ''v1.3.0-rc.1''),
          (''name'', PyStr ''Release v1.3.0-rc.1''),
          (''body'', PyStr ''Automated release for version v1.3.0-rc.1.''),
          (''draft'', PyBool False),
          (''prerelease'', PyBool True)])
   \<and> json (last (http_requests
          (fst (main (pull_request_cfg ''1.3.0'' ''1.2.0'') (world_of True forge_accepts)))))
     = Some (PyDict
         [(''tag_name'', PyStr ''v1.3.0''),
          (''name'', PyStr ''Release v1.3.0''),
          (''body'', PyStr ''Automated release for version v1.3.0.''),
          (''draft'', PyBool False),
          (''prerelease'', PyBool False)])"
  using pr_release_request
          [of "pull_request_cfg ''1.3.0-rc.1'' ''1.2.0''" "''1.3.0-rc.1''" "''1.2.0''" "''7''"
              "world_of True forge_accepts"
              "\<lparr>major = 1, minor = 3, patch = 0, prerelease = Some ''rc.1'', build = None\<rparr>"]
        pr_release_request
          [of "pull_request_cfg ''1.3.0'' ''1.2.0''" "''1.3.0''" "''1.2.0''" "''7''"
              "world_of True forge_accepts"
              "\<lparr>major = 1, minor = 3, patch = 0, prerelease = None, build = None\<rparr>"]
  by (simp add: main_pull_request cfg_examples version_more_examples style_examples
                forge_examples forge_accepts_def parse_examples parse_more_examples
                json_release_request release_tag_def lstrip_def)

section \<open>The tag of a release\<close>

text \<open>
  Claim C10. The tag \<open>create_release\<close> gives a release is \<open>v\<close> followed by the version
  without any of its leading \<open>v\<close>s, so it starts with exactly one \<open>v\<close>; \<open>1.2.3\<close> and
  \<open>v1.2.3\<close> both give \<open>v1.2.3\<close>; and every request \<open>create_release\<close> sends carries that
  tag as its \<open>tag_name\<close>.
\<close>

theorem release_tag_has_one_leading_v:
  "release_tag version = ''v'' @ dropWhile (\<lambda>c. c = CHR ''v'') version
   \<and> takeWhile (\<lambda>c. c = CHR ''v'') (release_tag version) = ''v''
   \<and> release_tag ''1.2.3'' = ''v1.2.3'' \<and> release_tag ''v1.2.3'' = ''v1.2.3''
   \<and> (\<forall>rq \<in> set (http_requests (fst (create_release cfg w version))).
         \<exists>d. json rq = Some (PyDict d)
           \<and> map_of d ''tag_name'' = Some (PyStr (release_tag version)))"
  by (auto simp add: release_tag_def lstrip_def takeWhile_dropWhile_same
                     create_release_requests release_request_def split: sum.splits)

theorem release_tag_has_one_leading_v_witness:
  "release_tag ''vv1.2.3'' = ''v1.2.3''
   \<and> map json (http_requests
                  (fst (create_release base_cfg (world_of True forge_accepts) ''vv1.2.3''))) =
       [Some (PyDict
          [(''tag_name'', PyStr ''v1.2.3''),
           (''name'', PyStr ''Release v1.2.3''),
           (''body'', PyStr ''Automated release for version v1.2.3.''),
           (''draft'', PyBool False),
           (''prerelease'', PyBool False)])]"
  using release_tag_has_one_leading_v [of "''vv1.2.3''" base_cfg "world_of True forge_accepts"]
  by (auto simp add: create_release_requests parse_examples lstrip_def release_tag_def
                     release_request_def)

section \<open>Failures of the forge\<close>

text \<open>
  Claim C9, as the code has it. Each of the three operations that change the forge
  (\<open>create_pr\<close>, \<open>merge_pr\<close>, \<open>create_release\<close>) answers a response without its success
  status by printing a diagnostic and exiting, with status 1, or 0 when the body of the
  answer to \<open>create_pr\<close> says that a pull request already exists.
  \<open>get_latest_release_version\<close> turns a 404 into the baseline \<open>0.0.0\<close>, and lets any
  other status from 400 to 599 escape as the \<open>HTTPError\<close> of \<open>raise_for_status\<close>. An
  exception raised by the HTTP call itself is caught by none of the four: the run ends
  with that exception, right after the request.
\<close>

theorem forge_failures_by_operation:
  "(\<forall>r. forge w (pr_request cfg t) = Response r \<and> status_code r \<noteq> 201 \<longrightarrow>
      (\<exists>line rest. create_pr cfg w t =
         (Http (pr_request cfg t) # Print (Lit ''Error creating PR: '' # line) # rest,
          Exit (if contains (body_text r) ''A pull request already exists'' then 0 else 1))))
   \<and> (\<forall>r. forge w (merge_request cfg n) = Response r \<and> status_code r \<noteq> 200 \<longrightarrow>
      (\<exists>line. merge_pr cfg w n =
         ([Http (merge_request cfg n), Print (Lit ''Error merging PR #'' # line)], Exit 1)))
   \<and> (\<forall>v r. parse (lstrip CHR ''v'' t) = Inr v
           \<and> forge w (release_request cfg t v) = Response r \<and> status_code r \<noteq> 201 \<longrightarrow>
      (\<exists>line. create_release cfg w t =
         ([Http (release_request cfg t v), Print (Lit ''Error creating release: '' # line)],
          Exit 1)))
   \<and> (\<forall>r. forge w (latest_request cfg) = Response r \<and> status_code r = 404 \<longrightarrow>
         snd (get_latest_release_version cfg w) = Return (PyStr ''0.0.0''))
   \<and> (\<forall>r. forge w (latest_request cfg) = Response r \<and> status_code r \<noteq> 404
           \<and> 400 \<le> status_code r \<and> status_code r < 600 \<longrightarrow>
         get_latest_release_version cfg w = ([Http (latest_request cfg)], Raise HTTPError))
   \<and> (\<forall>e. forge w (latest_request cfg) = Failed e \<longrightarrow>
         get_latest_release_version cfg w = ([Http (latest_request cfg)], Raise e))
   \<and> (\<forall>e. forge w (pr_request cfg t) = Failed e \<longrightarrow>
         create_pr cfg w t = ([Http (pr_request cfg t)], Raise e))
   \<and> (\<forall>e. forge w (merge_request cfg n) = Failed e \<longrightarrow>
         merge_pr cfg w n = ([Http (merge_request cfg n)], Raise e))
   \<and> (\<forall>v e. parse (lstrip CHR ''v'' t) = Inr v
           \<and> forge w (release_request cfg t v) = Failed e \<longrightarrow>
         create_release cfg w t = ([Http (release_request cfg t v)], Raise e))"
  by (simp add: create_pr_eq merge_pr_eq create_release_eq get_latest_release_version_eq)

theorem forge_failures_by_operation_witness:
  "snd (create_pr base_cfg (world_of True forge_rejects) ''v1.2.3'') = Exit 1
   \<and> snd (merge_pr base_cfg (world_of True forge_rejects) (PyInt 12)) = Exit 1
   \<and> snd (create_release base_cfg (world_of True forge_rejects) ''v1.2.3'') = Exit 1
   \<and> snd (get_latest_release_version base_cfg (world_of True forge_rejects)) = Raise HTTPError
   \<and> snd (get_latest_release_version base_cfg (world_of True forge_accepts))
       = Return (PyStr ''0.0.0'')
   \<and> snd (merge_pr base_cfg (world_of True forge_down) (PyInt 12)) = Raise RequestException"
  using forge_failures_by_operation
          [of "world_of True forge_rejects" base_cfg "''v1.2.3''" "PyInt 12"]
        forge_failures_by_operation
          [of "world_of True forge_accepts" base_cfg "''v1.2.3''" "PyInt 12"]
        forge_failures_by_operation
          [of "world_of True forge_down" base_cfg "''v1.2.3''" "PyInt 12"]
  by (auto simp add: forge_rejects_def forge_accepts_def forge_down_def no_release_yet_def
                     plain_response_def parse_examples lstrip_def)

text \<open>
  When no request gets through, each of the four operations ends with the exception of
  the transport layer raised and nothing printed; and a 500 answer to the look-up of the
  latest release ends with \<open>HTTPError\<close> raised.
\<close>

theorem transport_failure_escapes:
  "snd (get_latest_release_version base_cfg (world_of True forge_down)) = Raise RequestException
   \<and> snd (create_pr base_cfg (world_of True forge_down) ''v1.2.3'') = Raise RequestException
   \<and> snd (merge_pr base_cfg (world_of True forge_down) (PyInt 12)) = Raise RequestException
   \<and> snd (create_release base_cfg (world_of True forge_down) ''v1.2.3'')
       = Raise RequestException
   \<and> snd (get_latest_release_version base_cfg (world_of True forge_rejects)) = Raise HTTPError"
  by (simp add: get_latest_release_version_eq create_pr_eq merge_pr_eq create_release_eq
                forge_down_def forge_rejects_def plain_response_def parse_examples lstrip_def)

section \<open>The order of the checks\<close>

text \<open>
  Claim C2. In every run the checks appear in the order version check, metadata check,
  style check, each at most once and none without the ones before it, and no request
  that changes the forge is sent unless all three ran and passed. On both paths each
  check decides what follows. When the version check does not return, it is the only
  check, nothing is merged, opened or released, and the run exits with status 1. When
  it returns and \<open>library.properties\<close> is missing, the metadata check is the last
  check, the linter is never started, and the run exits with status 1. When the style
  check does not return, no request that changes the forge follows and the exit status
  is 1. When all three return, all three ran, and the first request that changes the
  forge follows.
\<close>

theorem checks_in_fixed_order:
  "prefix (checks_run (fst (main cfg w))) [VersionCheck, MetadataCheck, StyleCheck]
   \<and> (\<not> path_exists w ''library.properties'' \<longrightarrow>
        StyleCheck \<notin> set (checks_run (fst (main cfg w))))
   \<and> (checks_run (fst (main cfg w)) = [VersionCheck]
        \<or> checks_run (fst (main cfg w)) = [VersionCheck, MetadataCheck] \<longrightarrow>
        exit_code (snd (main cfg w)) = 1)
   \<and> (set (forge_calls (fst (main cfg w))) \<subseteq> {LatestRelease}
        \<or> checks_run (fst (main cfg w)) = [VersionCheck, MetadataCheck, StyleCheck]
           \<and> path_exists w ''library.properties''
           \<and> snd (validate_code_style cfg w) = Return ())
   \<and> (\<forall>pv mv pn.
         GITHUB_EVENT_NAME cfg = Some ''pull_request'' \<and> pr_version cfg = Some pv
         \<and> main_version cfg = Some mv \<and> PR_NUMBER cfg = Some pn
         \<and> pv \<noteq> [] \<and> mv \<noteq> [] \<and> pn \<noteq> [] \<longrightarrow>
         (if snd (validate_version (PyStr pv) (PyStr mv)) \<noteq> Return () then
            checks_run (fst (main cfg w)) = [VersionCheck]
            \<and> forge_calls (fst (main cfg w)) = [] \<and> snd (main cfg w) = Exit 1
          else if \<not> path_exists w ''library.properties'' then
            checks_run (fst (main cfg w)) = [VersionCheck, MetadataCheck]
            \<and> forge_calls (fst (main cfg w)) = [] \<and> snd (main cfg w) = Exit 1
          else if snd (validate_code_style cfg w) \<noteq> Return () then
            checks_run (fst (main cfg w)) =
              VersionCheck # MetadataCheck # checks_run (fst (validate_code_style cfg w))
            \<and> forge_calls (fst (main cfg w)) = []
            \<and> snd (main cfg w) = snd (validate_code_style cfg w)
            \<and> exit_code (snd (main cfg w)) = 1
          else
            checks_run (fst (main cfg w)) = [VersionCheck, MetadataCheck, StyleCheck]
            \<and> hd (forge_calls (fst (main cfg w))) = MergePullRequest))
   \<and> (\<forall>ref latest.
         GITHUB_EVENT_NAME cfg = Some ''push'' \<and> GITHUB_REF cfg = Some ref
         \<and> startswith ref ''refs/tags/''
         \<and> snd (get_latest_release_version cfg w) = Return (PyStr latest) \<longrightarrow>
         (if snd (validate_version (PyStr (str_replace ref ''refs/tags/'' [])) (PyStr latest))
               \<noteq> Return () then
            checks_run (fst (main cfg w)) = [VersionCheck]
            \<and> forge_calls (fst (main cfg w)) = [LatestRelease] \<and> snd (main cfg w) = Exit 1
          else if \<not> path_exists w ''library.properties'' then
            checks_run (fst (main cfg w)) = [VersionCheck, MetadataCheck]
            \<and> forge_calls (fst (main cfg w)) = [LatestRelease] \<and> snd (main cfg w) = Exit 1
          else if snd (validate_code_style cfg w) \<noteq> Return () then
            checks_run (fst (main cfg w)) =
              VersionCheck # MetadataCheck # checks_run (fst (validate_code_style cfg w))
            \<and> forge_calls (fst (main cfg w)) = [LatestRelease]
            \<and> snd (main cfg w) = snd (validate_code_style cfg w)
            \<and> exit_code (snd (main cfg w)) = 1
          else
            checks_run (fst (main cfg w)) = [VersionCheck, MetadataCheck, StyleCheck]
            \<and> take 2 (forge_calls (fst (main cfg w))) = [LatestRelease, OpenPullRequest]))"
proof -
  consider (pr) "GITHUB_EVENT_NAME cfg = Some ''pull_request''"
    | (push) "GITHUB_EVENT_NAME cfg = Some ''push''"
    | (other) "GITHUB_EVENT_NAME cfg \<noteq> Some ''pull_request''"
        "GITHUB_EVENT_NAME cfg \<noteq> Some ''push''"
    by blast
  then show ?thesis
  proof cases
    case pr
    show ?thesis
    proof (cases "\<exists>pv mv pn. pr_version cfg = Some pv \<and> main_version cfg = Some mv
              \<and> PR_NUMBER cfg = Some pn \<and> pv \<noteq> [] \<and> mv \<noteq> [] \<and> pn \<noteq> []")
      case False
      then show ?thesis
        using pr by (auto simp add: main_pull_request [OF pr] pr_missing verdict_defs)
    next
      case True
      then obtain pv mv pn where "pr_version cfg = Some pv" "main_version cfg = Some mv"
        "PR_NUMBER cfg = Some pn" "pv \<noteq> []" "mv \<noteq> []" "pn \<noteq> []"
        by blast
      from pr_summary [OF this, of w] this pr show ?thesis
        by (auto simp add: main_pull_request [OF pr] outcome_simps
                   validate_version_PyStr_checks
                 dest: validate_version_Exit
                 split: if_splits result.splits)
    qed
  next
    case push
    show ?thesis
    proof (cases "\<exists>ref. GITHUB_REF cfg = Some ref \<and> startswith ref ''refs/tags/''")
      case False
      then show ?thesis
        using push by (auto simp add: main_push [OF push] tag_skipped verdict_defs)
    next
      case True
      then obtain ref where "GITHUB_REF cfg = Some ref" "startswith ref ''refs/tags/''"
        by blast
      from tag_summary [OF this, of w] this push show ?thesis
        by (auto simp add: main_push [OF push] outcome_simps
                   validate_version_PyStr_checks
                 dest: validate_version_Exit
                 split: if_splits result.splits)
    qed
  next
    case other
    then show ?thesis
      by (auto simp add: main_other verdict_defs)
  qed
qed

theorem checks_in_fixed_order_witness:
  "checks_run (fst (main (pull_request_cfg ''2.0.0'' ''1.9.0'') (world_of False forge_accepts)))
       = [VersionCheck, MetadataCheck]
   \<and> exit_code (snd (main (pull_request_cfg ''2.0.0'' ''1.9.0'') (world_of False forge_accepts)))
       = 1
   \<and> forge_calls (fst (main (pull_request_cfg ''2.0.0'' ''1.9.0'') (world_of False forge_accepts)))
       = []
   \<and> checks_run (fst (main (pull_request_cfg ''1.0.0'' ''2.0.0'') (world_of True forge_accepts)))
       = [VersionCheck]
   \<and> forge_calls (fst (main (pull_request_cfg ''1.0.0'' ''2.0.0'') (world_of True forge_accepts)))
       = []
   \<and> snd (main (pull_request_cfg ''1.0.0'' ''2.0.0'') (world_of True forge_accepts)) = Exit 1
   \<and> checks_run (fst (main (pull_request_cfg ''2.0.0'' ''1.9.0'') (world_of True forge_accepts)))
       = [VersionCheck, MetadataCheck, StyleCheck]
   \<and> checks_run (fst (main (push_cfg ''refs/tags/v0.1.0'') (world_of True forge_accepts)))
       = [VersionCheck, MetadataCheck, StyleCheck]
   \<and> checks_run (fst (main (push_cfg ''refs/tags/v0.0.0'') (world_of True forge_accepts)))
       = [VersionCheck]"
  using checks_in_fixed_order
          [of "pull_request_cfg ''2.0.0'' ''1.9.0''" "world_of False forge_accepts"]
        checks_in_fixed_order
          [of "pull_request_cfg ''1.0.0'' ''2.0.0''" "world_of True forge_accepts"]
        checks_in_fixed_order
          [of "pull_request_cfg ''2.0.0'' ''1.9.0''" "world_of True forge_accepts"]
        checks_in_fixed_order
          [of "push_cfg ''refs/tags/v0.1.0''" "world_of True forge_accepts"]
        checks_in_fixed_order
          [of "push_cfg ''refs/tags/v0.0.0''" "world_of True forge_accepts"]
  by (simp add: cfg_examples version_examples version_more_examples style_examples
                new_tag_examples forge_examples forge_accepts_def startswith_def)

section \<open>Merge and release\<close>

text \<open>
  Claim C7, as the code has it. On the pull-request path the merge is requested exactly
  once when the three checks returned, and not at all otherwise. On the tag path the
  pull request is opened exactly once when the three checks returned, and the merge is
  requested exactly once when \<open>create_pr\<close> returned a number. The release is requested
  exactly once, right after the merge, when the forge answered the merge with status
  200, and never otherwise. The run returns exactly when every step returned; when the
  forge does not accept the merge, or accepts it and then does not accept the release,
  the run ends with exit status 1.
\<close>

theorem merge_once_then_publish_once:
  "(prefix (forge_calls (fst (main cfg w))) [MergePullRequest, PublishRelease]
    \<or> prefix (forge_calls (fst (main cfg w)))
         [LatestRelease, OpenPullRequest, MergePullRequest, PublishRelease])
   \<and> (MergePullRequest \<in> set (forge_calls (fst (main cfg w))) \<longrightarrow>
        checks_run (fst (main cfg w)) = [VersionCheck, MetadataCheck, StyleCheck])
   \<and> (PublishRelease \<in> set (forge_calls (fst (main cfg w)))
        \<longleftrightarrow> accepted w MergePullRequest 200 (fst (main cfg w)))
   \<and> (accepted w MergePullRequest 200 (fst (main cfg w))
        \<and> accepted w PublishRelease 201 (fst (main cfg w)) \<longrightarrow>
        snd (main cfg w) = Return ())
   \<and> (MergePullRequest \<in> set (forge_calls (fst (main cfg w)))
        \<and> \<not> accepted w MergePullRequest 200 (fst (main cfg w)) \<longrightarrow>
        exit_code (snd (main cfg w)) = 1)
   \<and> (accepted w MergePullRequest 200 (fst (main cfg w))
        \<and> \<not> accepted w PublishRelease 201 (fst (main cfg w)) \<longrightarrow>
        exit_code (snd (main cfg w)) = 1)
   \<and> (\<forall>pv mv pn.
         GITHUB_EVENT_NAME cfg = Some ''pull_request'' \<and> pr_version cfg = Some pv
         \<and> main_version cfg = Some mv \<and> PR_NUMBER cfg = Some pn
         \<and> pv \<noteq> [] \<and> mv \<noteq> [] \<and> pn \<noteq> [] \<longrightarrow>
         forge_calls (fst (main cfg w)) =
           (if snd (validate_version (PyStr pv) (PyStr mv)) = Return ()
               \<and> path_exists w ''library.properties''
               \<and> snd (validate_code_style cfg w) = Return ()
            then MergePullRequest #
                   (if snd (merge_pr cfg w (PyStr pn)) = Return () then [PublishRelease]
                    else [])
            else [])
         \<and> (snd (main cfg w) = Return () \<longleftrightarrow>
              snd (validate_version (PyStr pv) (PyStr mv)) = Return ()
              \<and> path_exists w ''library.properties''
              \<and> snd (validate_code_style cfg w) = Return ()
              \<and> snd (merge_pr cfg w (PyStr pn)) = Return ()
              \<and> snd (create_release cfg w pv) = Return ()))
   \<and> (\<forall>ref latest.
         GITHUB_EVENT_NAME cfg = Some ''push'' \<and> GITHUB_REF cfg = Some ref
         \<and> startswith ref ''refs/tags/''
         \<and> snd (get_latest_release_version cfg w) = Return latest \<longrightarrow>
         forge_calls (fst (main cfg w)) =
           LatestRelease #
           (if snd (validate_version (PyStr (str_replace ref ''refs/tags/'' [])) latest)
                 = Return ()
               \<and> path_exists w ''library.properties''
               \<and> snd (validate_code_style cfg w) = Return ()
            then OpenPullRequest #
                   (case snd (create_pr cfg w (str_replace ref ''refs/tags/'' [])) of
                      Return n \<Rightarrow>
                        MergePullRequest #
                          (if snd (merge_pr cfg w n) = Return () then [PublishRelease]
                           else [])
                    | Exit c \<Rightarrow> []
                    | Raise e \<Rightarrow> [])
            else [])
         \<and> (snd (main cfg w) = Return () \<longleftrightarrow>
              snd (validate_version (PyStr (str_replace ref ''refs/tags/'' [])) latest)
                 = Return ()
              \<and> path_exists w ''library.properties''
              \<and> snd (validate_code_style cfg w) = Return ()
              \<and> (\<exists>n. snd (create_pr cfg w (str_replace ref ''refs/tags/'' [])) = Return n
                     \<and> snd (merge_pr cfg w n) = Return ())
              \<and> snd (create_release cfg w (str_replace ref ''refs/tags/'' [])) = Return ()))
   \<and> (\<forall>n. snd (merge_pr cfg w n) = Return () \<longleftrightarrow>
             (\<exists>r. forge w (merge_request cfg n) = Response r \<and> status_code r = 200))"
  (is "?A1 \<and> ?A2 \<and> ?A3 \<and> ?A4 \<and> ?A5 \<and> ?A6 \<and> ?A7 \<and> ?A8 \<and> ?A9")
proof -
  have merge: ?A9
    by (simp add: merge_Return_iff)
  consider (pr) "GITHUB_EVENT_NAME cfg = Some ''pull_request''"
    | (push) "GITHUB_EVENT_NAME cfg = Some ''push''"
    | (other) "GITHUB_EVENT_NAME cfg \<noteq> Some ''pull_request''"
        "GITHUB_EVENT_NAME cfg \<noteq> Some ''push''"
    by blast
  then have "?A1 \<and> ?A2 \<and> ?A3 \<and> ?A4 \<and> ?A5 \<and> ?A6 \<and> ?A7 \<and> ?A8"
  proof cases
    case pr
    show ?thesis
    proof (cases "\<exists>pv mv pn. pr_version cfg = Some pv \<and> main_version cfg = Some mv
              \<and> PR_NUMBER cfg = Some pn \<and> pv \<noteq> [] \<and> mv \<noteq> [] \<and> pn \<noteq> []")
      case False
      then show ?thesis
        using pr by (auto simp add: main_pull_request [OF pr] pr_missing verdict_defs)
    next
      case True
      then obtain pv mv pn where "pr_version cfg = Some pv" "main_version cfg = Some mv"
        "PR_NUMBER cfg = Some pn" "pv \<noteq> []" "mv \<noteq> []" "pn \<noteq> []"
        by blast
      from pr_summary [OF this, of w] this pr show ?thesis
        by (auto simp add: main_pull_request [OF pr] outcome_simps
                 split: if_splits result.splits)
    qed
  next
    case push
    show ?thesis
    proof (cases "\<exists>ref. GITHUB_REF cfg = Some ref \<and> startswith ref ''refs/tags/''")
      case False
      then show ?thesis
        using push by (auto simp add: main_push [OF push] tag_skipped verdict_defs)
    next
      case True
      then obtain ref where "GITHUB_REF cfg = Some ref" "startswith ref ''refs/tags/''"
        by blast
      from tag_summary [OF this, of w] this push show ?thesis
        by (auto simp add: main_push [OF push] outcome_simps
                 split: if_splits result.splits)
    qed
  next
    case other
    then show ?thesis
      by (auto simp add: main_other verdict_defs)
  qed
  with merge show ?thesis by simp
qed

theorem merge_once_then_publish_once_witness:
  "forge_calls (fst (main (pull_request_cfg ''2.0.0'' ''1.9.0'') (world_of True forge_accepts)))
     = [MergePullRequest, PublishRelease]
   \<and> snd (main (pull_request_cfg ''2.0.0'' ''1.9.0'') (world_of True forge_accepts)) = Return ()
   \<and> forge_calls (fst (main (push_cfg ''refs/tags/v0.1.0'') (world_of True forge_accepts)))
     = [LatestRelease, OpenPullRequest, MergePullRequest, PublishRelease]
   \<and> snd (main (push_cfg ''refs/tags/v0.1.0'') (world_of True forge_accepts)) = Return ()
   \<and> forge_calls (fst (main (pull_request_cfg ''2.0.0'' ''1.9.0'') (world_of True forge_rejects)))
     = [MergePullRequest]
   \<and> snd (main (pull_request_cfg ''2.0.0'' ''1.9.0'') (world_of True forge_rejects))
     \<noteq> Return ()"
  using merge_once_then_publish_once
          [of "pull_request_cfg ''2.0.0'' ''1.9.0''" "world_of True forge_accepts"]
        merge_once_then_publish_once
          [of "push_cfg ''refs/tags/v0.1.0''" "world_of True forge_accepts"]
        merge_once_then_publish_once
          [of "pull_request_cfg ''2.0.0'' ''1.9.0''" "world_of True forge_rejects"]
  by (simp add: cfg_examples version_examples style_examples new_tag_examples startswith_def
                forge_examples release_examples forge_accepts_def parse_examples lstrip_def)

text \<open>
  Two runs whose three checks pass. On the pull-request path the forge answers the
  merge with 409: the merge is the only request, no release is published, and the run
  exits with status 1. On the tag path the forge answers that the pull request already
  exists: nothing is merged or released, and the run exits with status 0.
\<close>

theorem refused_merge_ends_the_run:
  "checks_run (fst (main (pull_request_cfg ''2.0.0'' ''1.9.0'') (world_of True forge_rejects)))
     = [VersionCheck, MetadataCheck, StyleCheck]
   \<and> forge_calls (fst (main (pull_request_cfg ''2.0.0'' ''1.9.0'') (world_of True forge_rejects)))
     = [MergePullRequest]
   \<and> snd (main (pull_request_cfg ''2.0.0'' ''1.9.0'') (world_of True forge_rejects)) = Exit 1
   \<and> checks_run (fst (main (push_cfg ''refs/tags/v0.1.0'')
        (world_of True (forge_of no_release_yet pr_duplicate merged_ok published_ok))))
     = [VersionCheck, MetadataCheck, StyleCheck]
   \<and> forge_calls (fst (main (push_cfg ''refs/tags/v0.1.0'')
        (world_of True (forge_of no_release_yet pr_duplicate merged_ok published_ok))))
     = [LatestRelease, OpenPullRequest]
   \<and> snd (main (push_cfg ''refs/tags/v0.1.0'')
        (world_of True (forge_of no_release_yet pr_duplicate merged_ok published_ok))) = Exit 0"
  using pr_summary [of "pull_request_cfg ''2.0.0'' ''1.9.0''" "''2.0.0''" "''1.9.0''" "''7''"
                       "world_of True forge_rejects"]
        tag_summary [of "push_cfg ''refs/tags/v0.1.0''" "''refs/tags/v0.1.0''"
              "world_of True (forge_of no_release_yet pr_duplicate merged_ok published_ok)"]
  by (simp add: main_pull_request main_push cfg_examples version_examples style_examples
                new_tag_examples startswith_def forge_examples)

section \<open>A pull request that already exists\<close>

text \<open>
  Claim C3. In every run for a push in which the request that opens the pull request is
  sent and the forge answers it with a status other than 201, the run exits, with
  status 0 when the body of the answer contains \<open>A pull request already exists\<close> and
  with status 1 otherwise; the look-up of the latest release and the opening of the
  pull request are the only requests: nothing is merged and no release is published.
\<close>

theorem duplicate_pr_is_a_clean_stop:
  assumes "GITHUB_EVENT_NAME cfg = Some ''push''"
    and "GITHUB_REF cfg = Some ref"
    and "OpenPullRequest \<in> set (forge_calls (fst (main cfg w)))"
    and "forge w (pr_request cfg (str_replace ref ''refs/tags/'' [])) = Response r"
    and "status_code r \<noteq> 201"
  shows "snd (main cfg w) =
           Exit (if contains (body_text r) ''A pull request already exists'' then 0 else 1)
         \<and> forge_calls (fst (main cfg w)) = [LatestRelease, OpenPullRequest]"
proof (cases "startswith ref ''refs/tags/''")
  case False
  with assms(2) have "\<not> (\<exists>ref. GITHUB_REF cfg = Some ref \<and> startswith ref ''refs/tags/'')"
    by simp
  with assms(3) show ?thesis
    by (simp add: main_push [OF assms(1)] tag_skipped)
next
  case True
  have P: "snd (create_pr cfg w (str_replace ref ''refs/tags/'' [])) =
             Exit (if contains (body_text r) ''A pull request already exists'' then 0 else 1)"
    using assms(4,5) by (simp add: create_pr_eq)
  from tag_summary [OF assms(2) True, of w] assms(3) show ?thesis
    by (auto simp add: main_push [OF assms(1)] P split: if_splits result.splits)
qed

theorem duplicate_pr_is_a_clean_stop_witness:
  "OpenPullRequest \<in> set (forge_calls (fst (main (push_cfg ''refs/tags/v0.1.0'')
      (world_of True (forge_of no_release_yet pr_duplicate merged_ok published_ok)))))
   \<and> snd (main (push_cfg ''refs/tags/v0.1.0'')
      (world_of True (forge_of no_release_yet pr_duplicate merged_ok published_ok))) = Exit 0
   \<and> forge_calls (fst (main (push_cfg ''refs/tags/v0.1.0'')
      (world_of True (forge_of no_release_yet pr_duplicate merged_ok published_ok))))
     = [LatestRelease, OpenPullRequest]"
  using duplicate_pr_is_a_clean_stop
          [of "push_cfg ''refs/tags/v0.1.0''" "''refs/tags/v0.1.0''"
              "world_of True (forge_of no_release_yet pr_duplicate merged_ok published_ok)"
              "plain_response 422
                 ''Validation Failed: A pull request already exists for owner:develop.''"]
        tag_summary [of "push_cfg ''refs/tags/v0.1.0''" "''refs/tags/v0.1.0''"
              "world_of True (forge_of no_release_yet pr_duplicate merged_ok published_ok)"]
  by (simp add: main_push cfg_examples version_examples style_examples new_tag_examples
                startswith_def get_latest_release_version_eq create_pr_eq
                no_release_yet_def pr_duplicate_def plain_response_def)

section \<open>The baseline of a first tag\<close>

text \<open>
  Claim C4, as the code has it. \<open>get_latest_release_version\<close> returns \<open>0.0.0\<close> when
  the forge answers 404, and the \<open>tag_name\<close> of the answer when the status is neither 404
  nor from 400 to 599 and the body is a JSON object with that key. Against the
  baseline \<open>0.0.0\<close> a tag that parses passes the version check exactly when its major,
  minor and patch numbers are not all zero.
\<close>

theorem latest_release_version_baseline:
  "(\<forall>r. forge w (latest_request cfg) = Response r \<and> status_code r = 404 \<longrightarrow>
       snd (get_latest_release_version cfg w) = Return (PyStr ''0.0.0''))
   \<and> (\<forall>r d t. forge w (latest_request cfg) = Response r \<and> status_code r \<noteq> 404
          \<and> (status_code r < 400 \<or> 600 \<le> status_code r)
          \<and> body_json r = Some (PyDict d) \<and> map_of d ''tag_name'' = Some t \<longrightarrow>
       snd (get_latest_release_version cfg w) = Return t)
   \<and> (\<forall>c. parse (lstrip CHR ''v'' new_tag) = Inr c \<longrightarrow>
         (snd (validate_version (PyStr new_tag) (PyStr ''0.0.0'')) = Return ()
            \<longleftrightarrow> major c \<noteq> 0 \<or> minor c \<noteq> 0 \<or> patch c \<noteq> 0))"
  by (auto simp add: get_latest_release_version_eq prim_defs validate_version_cases
                     parse_examples lstrip_def compare_zero)

theorem latest_release_version_baseline_witness:
  "snd (get_latest_release_version base_cfg (world_of True forge_accepts))
     = Return (PyStr ''0.0.0'')
   \<and> snd (get_latest_release_version base_cfg
            (world_of True (forge_of release_found pr_created merged_ok published_ok)))
     = Return (PyStr ''v1.2.0'')
   \<and> snd (validate_version (PyStr ''v0.1.0'') (PyStr ''0.0.0'')) = Return ()"
  using latest_release_version_baseline
          [of "world_of True forge_accepts" base_cfg "''v0.1.0''"]
        latest_release_version_baseline
          [of "world_of True (forge_of release_found pr_created merged_ok published_ok)"
              base_cfg "''v0.1.0''"]
  by (auto simp add: forge_accepts_def no_release_yet_def release_found_def
                     plain_response_def parse_examples lstrip_def)

text \<open>
  The first tag \<open>v0.0.0\<close> of a repository without a release: the baseline is \<open>0.0.0\<close>,
  the version check fails and the run exits with status 1 after the look-up. And a 500
  answer to the look-up ends with \<open>HTTPError\<close> raised, not with a tag name.
\<close>

theorem first_tag_can_fail_the_gate:
  "snd (get_latest_release_version (push_cfg ''refs/tags/v0.0.0'')
          (world_of True forge_accepts)) = Return (PyStr ''0.0.0'')
   \<and> snd (main (push_cfg ''refs/tags/v0.0.0'') (world_of True forge_accepts)) = Exit 1
   \<and> checks_run (fst (main (push_cfg ''refs/tags/v0.0.0'') (world_of True forge_accepts)))
       = [VersionCheck]
   \<and> forge_calls (fst (main (push_cfg ''refs/tags/v0.0.0'') (world_of True forge_accepts)))
       = [LatestRelease]
   \<and> snd (get_latest_release_version base_cfg (world_of True forge_rejects))
       = Raise HTTPError"
  using tag_summary [of "push_cfg ''refs/tags/v0.0.0''" "''refs/tags/v0.0.0''"
                        "world_of True forge_accepts"]
  by (simp add: main_push cfg_examples version_examples new_tag_examples startswith_def
                get_latest_release_version_eq forge_accepts_def forge_rejects_def
                no_release_yet_def plain_response_def)

end
